theory Spec2Isabelle
  imports Complex_Main
begin

section \<open>Draicor Bros: the simulation layer of \<^verbatim>\<open>src/index.tsx\<close>\<close>

text \<open>
  A shallow embedding of the game's simulation code. Conventions:

  \<^item> a JavaScript \<^verbatim>\<open>number\<close> that holds a coordinate, a velocity or a timer is a
    \<^typ>\<open>real\<close> (exact arithmetic; rounding of IEEE doubles is not modelled); a
    \<^verbatim>\<open>number\<close> that only ever holds a whole number (score, lives, uses, level,
    counters) is an \<^typ>\<open>int\<close>;
  \<^item> every class is a record with the fields of the class, in the order of the source;
    fields that several classes share (\<^verbatim>\<open>x\<close>, \<^verbatim>\<open>y\<close>, \<^verbatim>\<open>width\<close>, ...) are
    written qualified: \<open>Player.x\<close>, \<open>Enemy.x\<close>, \<open>Platform.x\<close>;
  \<^item> the global variables of the module are the fields of the record \<open>Game\<close>, and a
    function of the source that reads or writes globals takes the \<open>Game\<close> and
    returns the new one;
  \<^item> an object that lives in one of the global arrays is addressed by its index in
    that array, so that a mutation through \<^verbatim>\<open>this\<close> is seen by every later read of
    the array, as in the source;
  \<^item> \<^verbatim>\<open>Array.prototype.forEach\<close> reads the length once and then skips every index
    that is no longer present, so a \<^verbatim>\<open>splice\<close> inside the callback shifts the
    following element into the visited slot; \<open>forEach\<close> below does the same;
  \<^item> the event listeners and the callback of \<^verbatim>\<open>setTimeout\<close> are functions on a
    \<open>Page\<close>: the \<open>Game\<close> together with the number of timers set and not yet fired.
\<close>

subsection \<open>Constants\<close>

abbreviation (input) GAME_WIDTH :: real where "GAME_WIDTH \<equiv> 960"
abbreviation (input) GAME_HEIGHT :: real where "GAME_HEIGHT \<equiv> 720"
abbreviation (input) GRAVITY :: real where "GRAVITY \<equiv> 0.6"
abbreviation (input) PLAYER_SPEED :: real where "PLAYER_SPEED \<equiv> 5"
abbreviation (input) PLAYER_JUMP :: real where "PLAYER_JUMP \<equiv> - 15"
abbreviation (input) ENEMY_SPEED :: real where "ENEMY_SPEED \<equiv> 1.5"
abbreviation (input) FLIP_DURATION :: real where "FLIP_DURATION \<equiv> 5000"
abbreviation (input) HIGH_SCORE_KEY :: string where "HIGH_SCORE_KEY \<equiv> ''retroArcadeHighScore''"
abbreviation (input) LIVES_START :: int where "LIVES_START \<equiv> 3"
abbreviation (input) EXTRA_LIFE_SCORE :: int where "EXTRA_LIFE_SCORE \<equiv> 20000"
abbreviation (input) LEVEL_TRANSITION_TIME :: real where "LEVEL_TRANSITION_TIME \<equiv> 1500"
abbreviation (input) EXPLOSIVE_BLOCK_USES :: int where "EXPLOSIVE_BLOCK_USES \<equiv> 3"

definition spawnPoints :: "(real \<times> real) list" where
  "spawnPoints = [(150, 60), (GAME_WIDTH - 150, 60)]"

subsection \<open>Data\<close>

text \<open>
  The sprites are emoji string literals in the source. Each literal that occurs is one
  constructor, named after its Unicode character: U+1F916 (player 1), the astronaut
  sequence U+1F9D1 U+200D U+1F680 (player 2), U+1F47E, U+1F47B, U+1F47D, U+1F4A3,
  U+1F479, U+1F47A (the damaged ToughEnemy) and U+1F4A5 (the explosion particles).
\<close>

datatype Sprite =
  ROBOT | ASTRONAUT | ALIEN_MONSTER | GHOST | ALIEN | BOMB | OGRE | GOBLIN | COLLISION

datatype GameState = playerSelect | playing | gameOver | levelTransition | paused

record Controls =
  left :: string
  right :: string
  jump :: string

text \<open>
  \<^verbatim>\<open>class Player\<close>. The fields \<^verbatim>\<open>scoreEl\<close> and \<^verbatim>\<open>livesEl\<close> are assigned in the
  constructor and never read (\<^verbatim>\<open>updateUI\<close> uses the module's own element
  constants), so they are left out.
\<close>

record Player =
  id' :: int
  x :: real
  y :: real
  width :: real
  height :: real
  vx :: real
  vy :: real
  onGround :: bool
  sprite :: Sprite
  onFrozenPlatform :: bool
  controls :: Controls
  isDead :: bool
  score :: int
  lives :: int
  nextExtraLifeScore :: int

text \<open>
  \<^verbatim>\<open>class Enemy\<close> and its five subclasses. The subclass and the fields it adds are
  the field \<open>kind\<close>: \<^verbatim>\<open>jumpCooldown\<close> for JumpingEnemy, \<^verbatim>\<open>timer\<close> and
  \<^verbatim>\<open>platform\<close> for IceBomberEnemy, \<^verbatim>\<open>hitsLeft\<close> for ToughEnemy. The guarded
  platform is a reference to an element of \<^verbatim>\<open>platforms\<close> (or null): its index.
\<close>

datatype EnemyClass =
  BasicEnemy
  | FastEnemy
  | JumpingEnemy int
  | IceBomberEnemy real "nat option"
  | ToughEnemy int

record Enemy =
  x :: real
  y :: real
  width :: real
  height :: real
  vx :: real
  vy :: real
  sprite :: Sprite
  isFlipped :: bool
  flipTimer :: real
  onGround :: bool
  hitAnimationTimer :: real
  kind :: EnemyClass

record Platform =
  x :: real
  y :: real
  width :: real
  height :: real
  color :: string
  isFloor :: bool
  isFrozen :: bool
  frozenTimer :: real
  vx :: real
  startX :: real
  range' :: real

record ExplosiveBlock =
  x :: real
  y :: real
  width :: real
  height :: real
  initialHeight :: real
  usesLeft :: int
  cooldown :: real

record Particle =
  x :: real
  y :: real
  size' :: real
  vx :: real
  vy :: real
  sprite :: Sprite
  life :: int
  isEmoji :: bool

text \<open>
  The module's global variables, then what the module reaches outside itself: the
  \<^verbatim>\<open>textContent\<close> of the five readout elements, whether \<^verbatim>\<open>p2Ui\<close> carries the class
  \<^verbatim>\<open>hidden\<close>, \<^verbatim>\<open>localStorage\<close>, and the source of \<^verbatim>\<open>Math.random()\<close>: the
  \<open>n\<close>-th call returns \<open>randoms n mod 2^53 / 2^53\<close>, a multiple of \<open>2^-53\<close> in
  \<open>[0, 1)\<close>, for an arbitrary sequence \<open>randoms\<close>.
\<close>

record Game =
  highScore :: int
  level :: int
  players :: "Player list"
  enemies :: "Enemy list"
  platforms :: "Platform list"
  particles :: "Particle list"
  explosiveBlock :: ExplosiveBlock
  keys :: "string \<Rightarrow> bool"
  gameState :: GameState
  levelTransitionTimer :: real
  playerSelectOption :: int
  highScoreEl :: string
  p1ScoreEl :: string
  p1LivesEl :: string
  p2ScoreEl :: string
  p2LivesEl :: string
  p2Ui_hidden :: bool
  localStorage :: "string \<rightharpoonup> string"
  randoms :: "nat \<Rightarrow> nat"
  randomsUsed :: nat

subsection \<open>Utility functions\<close>

definition Math_random :: "Game \<Rightarrow> real \<times> Game" where
  "Math_random w =
     (real (randoms w (randomsUsed w) mod 2 ^ 53) / 2 ^ 53,
      w\<lparr>randomsUsed := Suc (randomsUsed w)\<rparr>)"

definition randomInt :: "int \<Rightarrow> int \<Rightarrow> Game \<Rightarrow> int \<times> Game" where
  "randomInt lo hi w =
     (let (r, w1) = Math_random w
      in (\<lfloor>r * real_of_int (hi - lo + 1) + real_of_int lo\<rfloor>, w1))"

text \<open>
  \<^verbatim>\<open>arr.forEach(cb)\<close> on an array held in the state: \<open>len\<close> reads its current
  length, \<open>body k\<close> is the callback at index \<open>k\<close>.
\<close>

definition forEach :: "('s \<Rightarrow> nat) \<Rightarrow> (nat \<Rightarrow> 's \<Rightarrow> 's) \<Rightarrow> 's \<Rightarrow> 's" where
  "forEach len body s = fold (\<lambda>k t. if k < len t then body k t else t) [0..<len s] s"

text \<open>\<^verbatim>\<open>Number.prototype.toString\<close> on a whole number, and \<^verbatim>\<open>padStart\<close>.\<close>

fun digits :: "nat \<Rightarrow> string" where
  "digits n = (if n < 10 then [''0123456789'' ! n] else digits (n div 10) @ [''0123456789'' ! (n mod 10)])"

declare digits.simps [simp del]

definition toString :: "int \<Rightarrow> string" where
  "toString n = (if n < 0 then CHR ''-'' # digits (nat (- n)) else digits (nat n))"

definition padStart :: "nat \<Rightarrow> char \<Rightarrow> string \<Rightarrow> string" where
  "padStart n c s = replicate (n - length s) c @ s"

definition modPlayer :: "nat \<Rightarrow> (Player \<Rightarrow> Player) \<Rightarrow> Game \<Rightarrow> Game" where
  "modPlayer i f w = w\<lparr>players := (players w)[i := f (players w ! i)]\<rparr>"

definition modEnemy :: "nat \<Rightarrow> (Enemy \<Rightarrow> Enemy) \<Rightarrow> Game \<Rightarrow> Game" where
  "modEnemy k f w = w\<lparr>enemies := (enemies w)[k := f (enemies w ! k)]\<rparr>"

subsection \<open>Particle\<close>

text \<open>
  \<^verbatim>\<open>/\p{Emoji}/u.test(sprite)\<close>: every sprite literal of the source contains a
  character with the Unicode property Emoji.
\<close>

definition test_Emoji :: "Sprite \<Rightarrow> bool" where
  "test_Emoji s = True"

definition Particle_new :: "real \<Rightarrow> real \<Rightarrow> Sprite \<Rightarrow> Game \<Rightarrow> Particle \<times> Game" where
  "Particle_new px py s w =
     (let emoji = test_Emoji s;
          (sz, w1) = (if emoji then (20, w) else (let (r, w') = Math_random w in (r * 5 + 2, w')));
          (r1, w2) = Math_random w1;
          (r2, w3) = Math_random w2
      in (\<lparr>Particle.x = px, y = py, size' = sz, vx = (r1 - 0.5) * 8, vy = (r2 - 0.5) * 8,
           sprite = s, life = 100, isEmoji = emoji\<rparr>, w3))"

definition Particle_update :: "Particle \<Rightarrow> Particle" where
  "Particle_update p =
     (let p = p\<lparr>Particle.x := Particle.x p + Particle.vx p\<rparr>;
          p = p\<lparr>Particle.y := Particle.y p + Particle.vy p\<rparr>;
          p = p\<lparr>Particle.vy := Particle.vy p + GRAVITY * 0.1\<rparr>;
          p = p\<lparr>life := life p - 1\<rparr>
      in if isEmoji p \<and> size' p > 0.2 then p\<lparr>size' := size' p - 0.2\<rparr> else p)"

text \<open>\<^verbatim>\<open>for (let i = 0; i < n; i++) particles.push(new Particle(px, py, s))\<close>\<close>

definition spawnParticles :: "nat \<Rightarrow> real \<Rightarrow> real \<Rightarrow> Sprite \<Rightarrow> Game \<Rightarrow> Game" where
  "spawnParticles n px py s w =
     fold (\<lambda>i t. let (p, t1) = Particle_new px py s t
                 in t1\<lparr>particles := particles t1 @ [p]\<rparr>) [0..<n] w"

subsection \<open>The readouts\<close>

definition updateUI :: "Game \<Rightarrow> Game" where
  "updateUI w =
     (let w = w\<lparr>highScoreEl := padStart 6 CHR ''0'' (toString (highScore w))\<rparr>;
          w = (if 0 < length (players w)
               then w\<lparr>p1ScoreEl := padStart 6 CHR ''0'' (toString (score (players w ! 0))),
                      p1LivesEl := toString (lives (players w ! 0))\<rparr>
               else w)
      in if 1 < length (players w)
         then w\<lparr>p2ScoreEl := padStart 6 CHR ''0'' (toString (score (players w ! 1))),
                p2LivesEl := toString (lives (players w ! 1))\<rparr>
         else w)"

definition checkGameOver :: "Game \<Rightarrow> Game" where
  "checkGameOver w =
     (let allPlayersDead = list_all isDead (players w)
      in if allPlayersDead then w\<lparr>gameState := gameOver\<rparr> else w)"

subsection \<open>Player\<close>

definition Player_new :: "int \<Rightarrow> Controls \<Rightarrow> Sprite \<Rightarrow> Player" where
  "Player_new n c s =
     \<lparr>id' = n, x = GAME_WIDTH / 2 - 40 / 2 + (if n = 1 then - 50 else 50),
      y = GAME_HEIGHT - 40 - 50, width = 40, height = 40, vx = 0, vy = 0,
      onGround = False, sprite = s, onFrozenPlatform = False, controls = c,
      isDead = False, score = 0, lives = LIVES_START, nextExtraLifeScore = EXTRA_LIFE_SCORE\<rparr>"

definition Player_update :: "(string \<Rightarrow> bool) \<Rightarrow> Player \<Rightarrow> Player" where
  "Player_update ks p =
     (if isDead p then p
      else
        let p =
          (if onFrozenPlatform p then
             (if \<not> ks (left (controls p)) \<and> \<not> ks (right (controls p)) then
                (let p = p\<lparr>Player.vx := Player.vx p * 0.97\<rparr>
                 in if \<bar>Player.vx p\<bar> < 0.1 then p\<lparr>Player.vx := 0\<rparr> else p)
              else
                (let p = (if ks (left (controls p)) then p\<lparr>Player.vx := - PLAYER_SPEED\<rparr> else p)
                 in if ks (right (controls p)) then p\<lparr>Player.vx := PLAYER_SPEED\<rparr> else p))
           else
             (let p = p\<lparr>Player.vx := 0\<rparr>;
                  p = (if ks (left (controls p)) then p\<lparr>Player.vx := - PLAYER_SPEED\<rparr> else p)
              in if ks (right (controls p)) then p\<lparr>Player.vx := PLAYER_SPEED\<rparr> else p));
          p = p\<lparr>Player.x := Player.x p + Player.vx p\<rparr>;
          p = (if Player.x p < - Player.width p then p\<lparr>Player.x := GAME_WIDTH\<rparr> else p);
          p = (if Player.x p > GAME_WIDTH then p\<lparr>Player.x := - Player.width p\<rparr> else p);
          p = p\<lparr>Player.vy := Player.vy p + GRAVITY\<rparr>;
          p = p\<lparr>Player.y := Player.y p + Player.vy p\<rparr>
        in p\<lparr>Player.onGround := False, onFrozenPlatform := False\<rparr>)"

definition Player_jump :: "Player \<Rightarrow> Player" where
  "Player_jump p = (if Player.onGround p \<and> \<not> isDead p then p\<lparr>Player.vy := PLAYER_JUMP\<rparr> else p)"

text \<open>\<^verbatim>\<open>die()\<close> and \<^verbatim>\<open>addScore(points)\<close> of the player \<^verbatim>\<open>players[i]\<close>.\<close>

definition die :: "nat \<Rightarrow> Game \<Rightarrow> Game" where
  "die i w =
     (if isDead (players w ! i) then w
      else
        let w = modPlayer i (\<lambda>p. p\<lparr>lives := lives p - 1\<rparr>) w;
            w = updateUI w;
            w = spawnParticles 50
                  (Player.x (players w ! i) + Player.width (players w ! i) / 2)
                  (Player.y (players w ! i) + Player.height (players w ! i) / 2)
                  (Player.sprite (players w ! i)) w
        in if lives (players w ! i) \<le> 0
           then checkGameOver (modPlayer i (\<lambda>p. p\<lparr>isDead := True\<rparr>) w)
           else modPlayer i (\<lambda>p. p\<lparr>Player.x := GAME_WIDTH / 2 - Player.width p / 2,
                                    Player.y := GAME_HEIGHT - Player.height p - 100,
                                    Player.vx := 0, Player.vy := 0\<rparr>) w)"

definition addScore :: "nat \<Rightarrow> int \<Rightarrow> Game \<Rightarrow> Game" where
  "addScore i points w =
     (let w = modPlayer i (\<lambda>p. p\<lparr>score := score p + points\<rparr>) w;
          w = (if score (players w ! i) \<ge> nextExtraLifeScore (players w ! i)
               then modPlayer i (\<lambda>p. p\<lparr>lives := lives p + 1,
                                        nextExtraLifeScore := nextExtraLifeScore p + EXTRA_LIFE_SCORE\<rparr>) w
               else w);
          w = (if score (players w ! i) > highScore w
               then (let w = w\<lparr>highScore := score (players w ! i)\<rparr>
                     in w\<lparr>localStorage := (localStorage w)(HIGH_SCORE_KEY \<mapsto> toString (highScore w))\<rparr>)
               else w)
      in updateUI w)"

subsection \<open>Enemy\<close>

definition Enemy_new :: "real \<Rightarrow> real \<Rightarrow> real \<Rightarrow> real \<Rightarrow> Sprite \<Rightarrow> EnemyClass \<Rightarrow> Enemy" where
  "Enemy_new ex ey w h s c =
     \<lparr>Enemy.x = ex, y = ey, width = w, height = h, vx = 0, vy = 0, sprite = s,
      isFlipped = False, flipTimer = 0, onGround = False, hitAnimationTimer = 0, kind = c\<rparr>"

definition BasicEnemy_new :: "real \<Rightarrow> real \<Rightarrow> Game \<Rightarrow> Enemy \<times> Game" where
  "BasicEnemy_new ex ey w =
     (let (r, w1) = Math_random w
      in ((Enemy_new ex ey 36 36 ALIEN_MONSTER BasicEnemy)
            \<lparr>Enemy.vx := (if r < 0.5 then 1 else - 1) * ENEMY_SPEED\<rparr>, w1))"

definition FastEnemy_new :: "real \<Rightarrow> real \<Rightarrow> Game \<Rightarrow> Enemy \<times> Game" where
  "FastEnemy_new ex ey w =
     (let (r, w1) = Math_random w
      in ((Enemy_new ex ey 36 36 GHOST FastEnemy)
            \<lparr>Enemy.vx := (if r < 0.5 then 1 else - 1) * ENEMY_SPEED * 1.8\<rparr>, w1))"

definition JumpingEnemy_new :: "real \<Rightarrow> real \<Rightarrow> Game \<Rightarrow> Enemy \<times> Game" where
  "JumpingEnemy_new ex ey w =
     (let (r, w1) = Math_random w;
          (c, w2) = randomInt 80 200 w1
      in ((Enemy_new ex ey 36 36 ALIEN (JumpingEnemy c))
            \<lparr>Enemy.vx := (if r < 0.5 then 1 else - 1) * ENEMY_SPEED * 0.8\<rparr>, w2))"

definition IceBomberEnemy_new :: "real \<Rightarrow> real \<Rightarrow> nat \<Rightarrow> Game \<Rightarrow> Enemy \<times> Game" where
  "IceBomberEnemy_new ex ey j w =
     (let (t, w1) = randomInt 3000 5000 w;
          p = platforms w1 ! j;
          e = (Enemy_new ex ey 36 36 BOMB (IceBomberEnemy (real_of_int t) (Some j)))\<lparr>Enemy.vx := 0\<rparr>;
          e = e\<lparr>Enemy.y := Platform.y p - Enemy.height e\<rparr>
      in (e\<lparr>Enemy.x := Platform.x p + Platform.width p / 2 - Enemy.width e / 2\<rparr>, w1))"

definition ToughEnemy_new :: "real \<Rightarrow> real \<Rightarrow> Game \<Rightarrow> Enemy \<times> Game" where
  "ToughEnemy_new ex ey w =
     (let (r, w1) = Math_random w
      in ((Enemy_new ex ey 40 40 OGRE (ToughEnemy 2))
            \<lparr>Enemy.vx := (if r < 0.5 then 1 else - 1) * ENEMY_SPEED * 0.7\<rparr>, w1))"

text \<open>The callback of \<^verbatim>\<open>platforms.forEach\<close> in \<^verbatim>\<open>Enemy.update\<close>.\<close>

definition Enemy_land :: "Platform \<Rightarrow> Enemy \<Rightarrow> Enemy" where
  "Enemy_land p e =
     (if Enemy.x e < Platform.x p + Platform.width p \<and> Enemy.x e + Enemy.width e > Platform.x p \<and>
         Enemy.y e + Enemy.height e \<ge> Platform.y p \<and>
         Enemy.y e + Enemy.height e \<le> Platform.y p + Platform.height p + 10 \<and> Enemy.vy e \<ge> 0
      then
        (let e = e\<lparr>Enemy.y := Platform.y p - Enemy.height e, Enemy.vy := 0, Enemy.onGround := True\<rparr>
         in if \<not> isFloor p then e\<lparr>Enemy.x := Enemy.x e + Platform.vx p\<rparr> else e)
      else e)"

text \<open>\<^verbatim>\<open>Enemy.update\<close> (the base class method) of \<^verbatim>\<open>enemies[k]\<close>.\<close>

definition Enemy_update :: "nat \<Rightarrow> Game \<Rightarrow> Game" where
  "Enemy_update k w =
     (let e = enemies w ! k;
          e = (if hitAnimationTimer e > 0
               then e\<lparr>hitAnimationTimer := hitAnimationTimer e - 1000 / 60\<rparr> else e);
          e = (if isFlipped e then
                 (let e = e\<lparr>flipTimer := flipTimer e - 1000 / 60\<rparr>
                  in if flipTimer e \<le> 0 then e\<lparr>isFlipped := False, Enemy.y := Enemy.y e - 5\<rparr> else e)
               else e);
          (e, w) = (if Enemy.x e + Enemy.width e < 0 \<or> Enemy.x e > GAME_WIDTH then
                      (let (n, w1) = randomInt 0 (int (length spawnPoints) - 1) w;
                           spawnPoint = spawnPoints ! nat n
                       in (e\<lparr>Enemy.x := fst spawnPoint, Enemy.y := snd spawnPoint, Enemy.vy := 0\<rparr>, w1))
                    else (e, w));
          e = e\<lparr>Enemy.vy := Enemy.vy e + GRAVITY\<rparr>;
          e = e\<lparr>Enemy.y := Enemy.y e + Enemy.vy e\<rparr>;
          e = e\<lparr>Enemy.onGround := False\<rparr>;
          e = fold Enemy_land (platforms w) e
      in w\<lparr>enemies := (enemies w)[k := e]\<rparr>)"

text \<open>\<^verbatim>\<open>if (!this.isFlipped) this.x += this.vx\<close>, the last line of four subclass updates.\<close>

definition walk :: "Enemy \<Rightarrow> Enemy" where
  "walk e = (if \<not> isFlipped e then e\<lparr>Enemy.x := Enemy.x e + Enemy.vx e\<rparr> else e)"

definition BasicEnemy_update :: "nat \<Rightarrow> Game \<Rightarrow> Game" where
  "BasicEnemy_update k w = modEnemy k walk (Enemy_update k w)"

definition FastEnemy_update :: "nat \<Rightarrow> Game \<Rightarrow> Game" where
  "FastEnemy_update k w = modEnemy k walk (Enemy_update k w)"

definition ToughEnemy_update :: "nat \<Rightarrow> Game \<Rightarrow> Game" where
  "ToughEnemy_update k w = modEnemy k walk (Enemy_update k w)"

definition JumpingEnemy_update :: "nat \<Rightarrow> int \<Rightarrow> Game \<Rightarrow> Game" where
  "JumpingEnemy_update k jumpCooldown w =
     (let w = Enemy_update k w;
          jumpCooldown = jumpCooldown - 1;
          w = modEnemy k (\<lambda>e. e\<lparr>kind := JumpingEnemy jumpCooldown\<rparr>) w;
          e = enemies w ! k;
          w = (if Enemy.onGround e \<and> jumpCooldown \<le> 0 \<and> \<not> isFlipped e then
                 (let (c, w1) = randomInt 100 300 w
                  in modEnemy k (\<lambda>e. e\<lparr>Enemy.vy := - 8, Enemy.onGround := False,
                                         kind := JumpingEnemy c\<rparr>) w1)
               else w)
      in modEnemy k walk w)"

text \<open>
  \<^verbatim>\<open>IceBomberEnemy.explode\<close>: \<^verbatim>\<open>enemies.indexOf(this)\<close> is the index \<open>k\<close> of the
  bomber; \<^verbatim>\<open>platform.freeze()\<close> reaches the platform through the reference.
\<close>

definition freeze :: "Platform \<Rightarrow> Platform" where
  "freeze p = p\<lparr>isFrozen := True, frozenTimer := 7000\<rparr>"

definition explode :: "nat \<Rightarrow> Game \<Rightarrow> Game" where
  "explode k w =
     (let this = enemies w ! k;
          w = w\<lparr>enemies := take k (enemies w) @ drop (Suc k) (enemies w)\<rparr>;
          w = spawnParticles 40 (Enemy.x this) (Enemy.y this) (Enemy.sprite this) w
      in case kind this of
           IceBomberEnemy t (Some j) \<Rightarrow>
             (if j < length (platforms w)
              then w\<lparr>platforms := (platforms w)[j := freeze (platforms w ! j)]\<rparr> else w)
         | _ \<Rightarrow> w)"

text \<open>
  \<^verbatim>\<open>IceBomberEnemy.update\<close>. After \<^verbatim>\<open>explode\<close> the bomber is no longer in the
  array, and the last assignment to \<^verbatim>\<open>this.x\<close> reaches no object of the state.
\<close>

definition IceBomberEnemy_update :: "nat \<Rightarrow> real \<Rightarrow> nat option \<Rightarrow> Game \<Rightarrow> Game" where
  "IceBomberEnemy_update k timer platform w =
     (let w = Enemy_update k w;
          timer = timer - 1000 / 60;
          w = modEnemy k (\<lambda>e. e\<lparr>kind := IceBomberEnemy timer platform\<rparr>) w
      in if timer \<le> 0 \<and> \<not> isFlipped (enemies w ! k) then explode k w
         else
           (case platform of
              Some j \<Rightarrow>
                (if j < length (platforms w)
                 then modEnemy k (\<lambda>e. e\<lparr>Enemy.x := Platform.x (platforms w ! j)
                                         + Platform.width (platforms w ! j) / 2 - Enemy.width e / 2\<rparr>) w
                 else w)
            | None \<Rightarrow> w))"

text \<open>\<^verbatim>\<open>e.update()\<close>: the method of the enemy's own class.\<close>

definition update_enemy :: "nat \<Rightarrow> Game \<Rightarrow> Game" where
  "update_enemy k w =
     (case kind (enemies w ! k) of
        BasicEnemy \<Rightarrow> BasicEnemy_update k w
      | FastEnemy \<Rightarrow> FastEnemy_update k w
      | JumpingEnemy c \<Rightarrow> JumpingEnemy_update k c w
      | IceBomberEnemy t p \<Rightarrow> IceBomberEnemy_update k t p w
      | ToughEnemy h \<Rightarrow> ToughEnemy_update k w)"

text \<open>\<^verbatim>\<open>flip()\<close>: the base method, the two overrides, and the call \<^verbatim>\<open>e.flip()\<close>.\<close>

definition Enemy_flip :: "Enemy \<Rightarrow> Enemy" where
  "Enemy_flip e =
     (if \<not> isFlipped e
      then e\<lparr>isFlipped := True, flipTimer := FLIP_DURATION, Enemy.vy := - 5\<rparr> else e)"

definition IceBomberEnemy_flip :: "real \<Rightarrow> nat option \<Rightarrow> Enemy \<Rightarrow> Enemy" where
  "IceBomberEnemy_flip timer platform e = e\<lparr>kind := IceBomberEnemy (min timer 100) platform\<rparr>"

definition ToughEnemy_flip :: "int \<Rightarrow> Enemy \<Rightarrow> Enemy" where
  "ToughEnemy_flip hitsLeft e =
     (if isFlipped e then e
      else
        let hitsLeft = hitsLeft - 1;
            e = e\<lparr>kind := ToughEnemy hitsLeft, Enemy.vy := - 3\<rparr>
        in if hitsLeft \<le> 0 then Enemy_flip e
           else e\<lparr>hitAnimationTimer := 300, Enemy.sprite := GOBLIN\<rparr>)"

definition flip :: "Enemy \<Rightarrow> Enemy" where
  "flip e =
     (case kind e of
        IceBomberEnemy t p \<Rightarrow> IceBomberEnemy_flip t p e
      | ToughEnemy h \<Rightarrow> ToughEnemy_flip h e
      | _ \<Rightarrow> Enemy_flip e)"

subsection \<open>Platform\<close>

definition Platform_new :: "real \<Rightarrow> real \<Rightarrow> real \<Rightarrow> real \<Rightarrow> bool \<Rightarrow> Platform" where
  "Platform_new px py w h fl =
     \<lparr>Platform.x = px, y = py, width = w, height = h, color = ''#0074D9'', isFloor = fl,
      isFrozen = False, frozenTimer = 0, vx = 0, startX = px, range' = 0\<rparr>"

definition Platform_update :: "Platform \<Rightarrow> Platform" where
  "Platform_update p =
     (let p = (if isFrozen p then
                 (let p = p\<lparr>frozenTimer := frozenTimer p - 1000 / 60\<rparr>
                  in if frozenTimer p \<le> 0 then p\<lparr>isFrozen := False\<rparr> else p)
               else p)
      in if Platform.vx p \<noteq> 0 then
           (let p = p\<lparr>Platform.x := Platform.x p + Platform.vx p\<rparr>
            in if Platform.x p \<le> startX p \<or> Platform.x p \<ge> startX p + range' p
               then p\<lparr>Platform.vx := Platform.vx p * - 1\<rparr> else p)
         else p)"

definition makeMobile :: "real \<Rightarrow> real \<Rightarrow> Platform \<Rightarrow> Platform" where
  "makeMobile speed rng p =
     (let p = p\<lparr>Platform.vx := speed, range' := rng\<rparr>
      in if speed < 0 then p\<lparr>startX := Platform.x p - rng\<rparr> else p)"

subsection \<open>ExplosiveBlock\<close>

text \<open>The calls on the canvas context that \<^verbatim>\<open>draw\<close> makes, in order.\<close>

datatype CanvasCall =
  save | restore
  | set_globalAlpha real
  | set_fillStyle string
  | fillRect real real real real
  | set_strokeStyle string
  | set_lineWidth real
  | strokeRect real real real real
  | set_font string
  | set_textAlign string
  | set_textBaseline string
  | fillText string real real

definition ExplosiveBlock_new :: ExplosiveBlock where
  "ExplosiveBlock_new =
     \<lparr>ExplosiveBlock.x = GAME_WIDTH / 2 - 50 / 2, y = GAME_HEIGHT - 180, width = 50, height = 50,
      initialHeight = 50, usesLeft = EXPLOSIVE_BLOCK_USES, cooldown = 0\<rparr>"

definition ExplosiveBlock_draw :: "ExplosiveBlock \<Rightarrow> CanvasCall list" where
  \<open>ExplosiveBlock_draw b =
     (if usesLeft b \<le> 0 then []
      else
        [save] @ (if cooldown b > 0 then [set_globalAlpha 0.5] else []) @
        [set_fillStyle ''#ff4136'',
         fillRect (ExplosiveBlock.x b) (ExplosiveBlock.y b) (ExplosiveBlock.width b) (ExplosiveBlock.height b),
         set_strokeStyle ''#fff'',
         set_lineWidth 3,
         strokeRect (ExplosiveBlock.x b) (ExplosiveBlock.y b) (ExplosiveBlock.width b) (ExplosiveBlock.height b),
         set_fillStyle ''#fff'',
         set_font ''30px "Press Start 2P"'',
         set_textAlign ''center'',
         set_textBaseline ''middle'',
         fillText ''B'' (ExplosiveBlock.x b + ExplosiveBlock.width b / 2)
                        (ExplosiveBlock.y b + ExplosiveBlock.height b / 2 + 2),
         restore])\<close>

definition ExplosiveBlock_update :: "ExplosiveBlock \<Rightarrow> ExplosiveBlock" where
  "ExplosiveBlock_update b = (if cooldown b > 0 then b\<lparr>cooldown := cooldown b - 1000 / 60\<rparr> else b)"

text \<open>\<^verbatim>\<open>hit()\<close> of the one block, \<^verbatim>\<open>explosiveBlock\<close>: it also writes the enemies and the particles.\<close>

definition hit :: "Game \<Rightarrow> Game" where
  "hit w =
     (if usesLeft (explosiveBlock w) > 0 \<and> cooldown (explosiveBlock w) \<le> 0 then
        (let w = w\<lparr>explosiveBlock := (explosiveBlock w)\<lparr>usesLeft := usesLeft (explosiveBlock w) - 1\<rparr>\<rparr>;
             w = w\<lparr>explosiveBlock := (explosiveBlock w)\<lparr>cooldown := 500\<rparr>\<rparr>;
             w = w\<lparr>enemies := map flip (enemies w)\<rparr>;
             w = spawnParticles 50
                   (ExplosiveBlock.x (explosiveBlock w) + ExplosiveBlock.width (explosiveBlock w) / 2)
                   (ExplosiveBlock.y (explosiveBlock w)) COLLISION w;
             flattenAmount = initialHeight (explosiveBlock w) / real_of_int EXPLOSIVE_BLOCK_USES;
             w = w\<lparr>explosiveBlock := (explosiveBlock w)
                    \<lparr>ExplosiveBlock.height := ExplosiveBlock.height (explosiveBlock w) - flattenAmount\<rparr>\<rparr>
         in w\<lparr>explosiveBlock := (explosiveBlock w)
                \<lparr>ExplosiveBlock.y := ExplosiveBlock.y (explosiveBlock w) + flattenAmount\<rparr>\<rparr>)
      else w)"

definition reset :: "ExplosiveBlock \<Rightarrow> ExplosiveBlock" where
  "reset b = b\<lparr>usesLeft := EXPLOSIVE_BLOCK_USES, ExplosiveBlock.height := initialHeight b,
               ExplosiveBlock.y := GAME_HEIGHT - 180\<rparr>"

subsection \<open>Levels\<close>

text \<open>
  \<^verbatim>\<open>levelLayouts\<close>: four functions that build fresh platforms. A platform built with
  two or three arguments has the default height 20 and is no floor.
\<close>

definition levelLayouts :: "Platform list list" where
  "levelLayouts =
     [[Platform_new 0 550 250 20 False,
       Platform_new (GAME_WIDTH - 250) 550 250 20 False,
       Platform_new 300 400 360 20 False,
       Platform_new 0 250 350 20 False,
       Platform_new (GAME_WIDTH - 350) 250 350 20 False],
      [Platform_new 0 580 200 20 False,
       Platform_new (GAME_WIDTH - 200) 580 200 20 False,
       Platform_new 250 450 150 20 False,
       Platform_new (GAME_WIDTH - 400) 450 150 20 False,
       Platform_new 0 300 200 20 False,
       Platform_new (GAME_WIDTH - 200) 300 200 20 False,
       Platform_new 300 180 360 20 False],
      [Platform_new 0 550 200 20 False,
       Platform_new (GAME_WIDTH - 200) 550 200 20 False,
       makeMobile 1 100 (Platform_new 380 400 200 20 False),
       Platform_new 0 250 300 20 False,
       Platform_new (GAME_WIDTH - 300) 250 300 20 False],
      [makeMobile 1.2 80 (Platform_new 0 580 150 20 False),
       makeMobile (- 1.2) 80 (Platform_new (GAME_WIDTH - 150) 580 150 20 False),
       Platform_new 300 420 360 20 False,
       makeMobile 1.5 150 (Platform_new 0 250 350 20 False),
       makeMobile (- 1.5) 150 (Platform_new (GAME_WIDTH - 350) 250 350 20 False)]]"

text \<open>
  One round of the loop of \<^verbatim>\<open>setupLevel\<close>. \<open>validPlatforms\<close> holds the indices of
  the platforms that pass the filter; \<^verbatim>\<open>e.platform === p\<close> compares references,
  here indices.
\<close>

definition guards :: "nat \<Rightarrow> Enemy \<Rightarrow> bool" where
  "guards j e = (case kind e of IceBomberEnemy t p \<Rightarrow> p = Some j | _ \<Rightarrow> False)"

definition spawnEnemy :: "int \<Rightarrow> Game \<Rightarrow> Game" where
  "spawnEnemy finalLevel w =
     (let (n, w) = randomInt 0 (int (length spawnPoints) - 1) w;
          spawnPoint = spawnPoints ! nat n;
          ex = fst spawnPoint;
          ey = snd spawnPoint;
          (enemyType, w) = Math_random w;
          (e, w) =
            (if finalLevel \<ge> 25 \<and> enemyType < 0.15 then ToughEnemy_new ex ey w
             else if finalLevel \<ge> 20 \<and> enemyType < 0.3 then
               (let validPlatforms =
                      filter (\<lambda>j. \<not> isFloor (platforms w ! j) \<and> Platform.vx (platforms w ! j) = 0 \<and>
                                   \<not> list_ex (guards j) (enemies w))
                        [0..<length (platforms w)]
                in if length validPlatforms > 0 then
                     (let (m, w) = randomInt 0 (int (length validPlatforms) - 1) w;
                          platformForBomber = validPlatforms ! nat m
                      in IceBomberEnemy_new 0 0 platformForBomber w)
                   else BasicEnemy_new ex ey w)
             else if finalLevel \<ge> 10 \<and> enemyType < 0.5 then JumpingEnemy_new ex ey w
             else if finalLevel \<ge> 5 \<and> enemyType < 0.75 then FastEnemy_new ex ey w
             else BasicEnemy_new ex ey w)
      in w\<lparr>enemies := enemies w @ [e]\<rparr>)"

text \<open>
  \<^verbatim>\<open>setupLevel(levelNum)\<close>, for \<open>levelNum \<ge> 1\<close>: the source is only ever called with
  the global \<^verbatim>\<open>level\<close>, which starts at 1 and is only incremented. (For a smaller
  argument the layout index of the source is negative and the call raises.)
\<close>

definition setupLevel :: "int \<Rightarrow> Game \<Rightarrow> Game" where
  "setupLevel levelNum w =
     (let layoutIndex = nat (((levelNum - 1) div 4) mod int (length levelLayouts));
          w = w\<lparr>platforms := Platform_new 0 (GAME_HEIGHT - 40) GAME_WIDTH 40 True
                              # levelLayouts ! layoutIndex\<rparr>;
          w = w\<lparr>platforms := map (\<lambda>p. p\<lparr>isFrozen := False\<rparr>) (platforms w)\<rparr>;
          w = w\<lparr>enemies := []\<rparr>;
          w = w\<lparr>explosiveBlock := reset (explosiveBlock w)\<rparr>;
          finalLevel = min levelNum 50;
          enemyCount = 2 + finalLevel div 2
      in fold (\<lambda>i. spawnEnemy finalLevel) [0..<nat enemyCount] w)"

definition startGame :: "int \<Rightarrow> Game \<Rightarrow> Game" where
  "startGame numPlayers w =
     (let w = w\<lparr>level := 1\<rparr>;
          w = w\<lparr>players := []\<rparr>;
          p1Controls = \<lparr>left = ''a'', right = ''d'', jump = ''w''\<rparr>;
          w = w\<lparr>players := players w @ [Player_new 1 p1Controls ROBOT]\<rparr>;
          w = (if numPlayers = 2 then
                 (let p2Controls = \<lparr>left = ''arrowleft'', right = ''arrowright'', jump = ''arrowup''\<rparr>;
                      w = w\<lparr>players := players w @ [Player_new 2 p2Controls ASTRONAUT]\<rparr>
                  in w\<lparr>p2Ui_hidden := False\<rparr>)
               else w\<lparr>p2Ui_hidden := True\<rparr>);
          w = w\<lparr>explosiveBlock := ExplosiveBlock_new\<rparr>;
          w = setupLevel (level w) w;
          w = updateUI w
      in w\<lparr>gameState := playing\<rparr>)"

subsection \<open>The collision pass\<close>

text \<open>
  The callback of \<^verbatim>\<open>players.forEach\<close> in \<^verbatim>\<open>handleCollisions\<close>, cut at its comments.
  First: player against the explosive block as a platform.
\<close>

definition landOnBlock :: "nat \<Rightarrow> Game \<Rightarrow> Game" where
  "landOnBlock i w =
     (let block = explosiveBlock w; player = players w ! i
      in if usesLeft block > 0 \<and>
            Player.x player < ExplosiveBlock.x block + ExplosiveBlock.width block \<and>
            Player.x player + Player.width player > ExplosiveBlock.x block \<and>
            Player.y player + Player.height player \<ge> ExplosiveBlock.y block \<and>
            Player.y player + Player.height player \<le> ExplosiveBlock.y block + 10 + Player.vy player \<and>
            Player.vy player \<ge> 0
         then modPlayer i (\<lambda>q. q\<lparr>Player.y := ExplosiveBlock.y block - Player.height q,
                                  Player.vy := 0, Player.onGround := True\<rparr>) w
         else w)"

text \<open>
  Player against the platform \<^verbatim>\<open>platforms[j]\<close>. The state of the loop carries the two
  local variables \<^verbatim>\<open>onAnyPlatform\<close> and \<^verbatim>\<open>isCurrentlyOnFrozenPlatform\<close>.
\<close>

definition landOnPlatform :: "nat \<Rightarrow> nat \<Rightarrow> Game \<times> bool \<times> bool \<Rightarrow> Game \<times> bool \<times> bool" where
  "landOnPlatform i j = (\<lambda>(w, onAnyPlatform, isCurrentlyOnFrozenPlatform).
     (let p = platforms w ! j; player = players w ! i
      in if Player.x player < Platform.x p + Platform.width p \<and>
            Player.x player + Player.width player > Platform.x p \<and>
            Player.y player + Player.height player \<ge> Platform.y p \<and>
            Player.y player + Player.height player \<le> Platform.y p + Platform.height p + Player.vy player \<and>
            Player.vy player \<ge> 0
         then (modPlayer i (\<lambda>q. q\<lparr>Player.y := Platform.y p - Player.height q, Player.vy := 0,
                                    Player.onGround := True,
                                    Player.x := Player.x q + Platform.vx p\<rparr>) w,
               True, isCurrentlyOnFrozenPlatform \<or> isFrozen p)
         else (w, onAnyPlatform, isCurrentlyOnFrozenPlatform)))"

definition hitEnemyAbove :: "nat \<Rightarrow> Platform \<Rightarrow> real \<Rightarrow> nat \<Rightarrow> Game \<Rightarrow> Game" where
  "hitEnemyAbove i p hitCenterX k w =
     (let enemy = enemies w ! k;
          onThisPlatform = \<bar>(Enemy.y enemy + Enemy.height enemy) - Platform.y p\<bar> < 10;
          withinHitRange = Enemy.x enemy < hitCenterX + 20 \<and>
                           Enemy.x enemy + Enemy.width enemy > hitCenterX - 20
      in if \<not> isFlipped enemy \<and> onThisPlatform \<and> withinHitRange
         then addScore i 50 (modEnemy k flip w)
         else w)"

definition hitPlatformFromBelow :: "nat \<Rightarrow> nat \<Rightarrow> Game \<Rightarrow> Game" where
  "hitPlatformFromBelow i j w =
     (let p = platforms w ! j; player = players w ! i
      in if Player.x player < Platform.x p + Platform.width p \<and>
            Player.x player + Player.width player > Platform.x p \<and>
            Player.y player > Platform.y p \<and>
            Player.y player \<le> Platform.y p + Platform.height p \<and> Player.vy player < 0
         then
           (let w = modPlayer i (\<lambda>q. q\<lparr>Player.y := Platform.y p + Platform.height p,
                                        Player.vy := 0\<rparr>) w;
                hitCenterX = Player.x (players w ! i) + Player.width (players w ! i) / 2
            in forEach (\<lambda>t. length (enemies t)) (hitEnemyAbove i p hitCenterX) w)
         else w)"

definition playerVsPlatform :: "nat \<Rightarrow> nat \<Rightarrow> Game \<times> bool \<times> bool \<Rightarrow> Game \<times> bool \<times> bool" where
  "playerVsPlatform i j s =
     (case landOnPlatform i j s of (w, a, f) \<Rightarrow> (hitPlatformFromBelow i j w, a, f))"

text \<open>Player against the explosive block, hitting it from below.\<close>

definition hitBlockFromBelow :: "nat \<Rightarrow> Game \<Rightarrow> Game" where
  "hitBlockFromBelow i w =
     (let block = explosiveBlock w; player = players w ! i
      in if Player.x player < ExplosiveBlock.x block + ExplosiveBlock.width block \<and>
            Player.x player + Player.width player > ExplosiveBlock.x block \<and>
            Player.y player > ExplosiveBlock.y block \<and>
            Player.y player \<le> ExplosiveBlock.y block + ExplosiveBlock.height block \<and>
            Player.vy player < 0
         then hit (modPlayer i (\<lambda>q. q\<lparr>Player.y := ExplosiveBlock.y block + ExplosiveBlock.height block,
                                       Player.vy := 0\<rparr>) w)
         else w)"

text \<open>
  Player against the enemy \<^verbatim>\<open>enemies[k]\<close>: the callback of
  \<^verbatim>\<open>enemies.forEach((enemy, index) => ...)\<close>, with \<^verbatim>\<open>enemies.splice(index, 1)\<close>.
\<close>

definition playerVsEnemy :: "nat \<Rightarrow> nat \<Rightarrow> Game \<Rightarrow> Game" where
  "playerVsEnemy i k w =
     (let player = players w ! i; enemy = enemies w ! k
      in if Player.x player < Enemy.x enemy + Enemy.width enemy \<and>
            Player.x player + Player.width player > Enemy.x enemy \<and>
            Player.y player < Enemy.y enemy + Enemy.height enemy \<and>
            Player.y player + Player.height player > Enemy.y enemy
         then
           (if isFlipped enemy then
              (let w = w\<lparr>enemies := take k (enemies w) @ drop (Suc k) (enemies w)\<rparr>;
                   w = spawnParticles 20 (Enemy.x enemy) (Enemy.y enemy) (Enemy.sprite enemy) w
               in addScore i 200 w)
            else die i w)
         else w)"

definition collidePlayer :: "nat \<Rightarrow> Game \<Rightarrow> Game" where
  "collidePlayer i w =
     (if isDead (players w ! i) then w
      else
        let w = landOnBlock i w;
            onAnyPlatform = Player.onGround (players w ! i);
            isCurrentlyOnFrozenPlatform = False;
            (w, onAnyPlatform, isCurrentlyOnFrozenPlatform) =
               forEach (\<lambda>(t, a, f). length (platforms t)) (playerVsPlatform i)
                 (w, onAnyPlatform, isCurrentlyOnFrozenPlatform);
            w = modPlayer i (\<lambda>q. q\<lparr>Player.onGround := onAnyPlatform,
                                     onFrozenPlatform := isCurrentlyOnFrozenPlatform\<rparr>) w;
            w = hitBlockFromBelow i w
        in forEach (\<lambda>t. length (enemies t)) (playerVsEnemy i) w)"

text \<open>Enemy against enemy: the body of the two nested \<^verbatim>\<open>for\<close> loops.\<close>

definition enemyVsEnemy :: "nat \<Rightarrow> nat \<Rightarrow> Game \<Rightarrow> Game" where
  "enemyVsEnemy i j w =
     (let e1 = enemies w ! i; e2 = enemies w ! j
      in if Enemy.x e1 < Enemy.x e2 + Enemy.width e2 \<and> Enemy.x e1 + Enemy.width e1 > Enemy.x e2 \<and>
            Enemy.y e1 < Enemy.y e2 + Enemy.height e2 \<and> Enemy.y e1 + Enemy.height e1 > Enemy.y e2
         then
           (if \<not> isFlipped e1 \<and> \<not> isFlipped e2 \<and> Enemy.onGround e1 \<and> Enemy.onGround e2 then
              (let tempVx = Enemy.vx e1;
                   w = modEnemy i (\<lambda>e. e\<lparr>Enemy.vx := Enemy.vx e2\<rparr>) w;
                   w = modEnemy j (\<lambda>e. e\<lparr>Enemy.vx := tempVx\<rparr>) w
               in if Enemy.x e1 < Enemy.x e2
                  then modEnemy j (\<lambda>e. e\<lparr>Enemy.x := Enemy.x e + 1\<rparr>)
                         (modEnemy i (\<lambda>e. e\<lparr>Enemy.x := Enemy.x e - 1\<rparr>) w)
                  else modEnemy j (\<lambda>e. e\<lparr>Enemy.x := Enemy.x e - 1\<rparr>)
                         (modEnemy i (\<lambda>e. e\<lparr>Enemy.x := Enemy.x e + 1\<rparr>) w))
            else w)
         else w)"

definition handleCollisions :: "Game \<Rightarrow> Game" where
  "handleCollisions w =
     (let w = forEach (\<lambda>t. length (players t)) collidePlayer w
      in fold (\<lambda>i t. fold (\<lambda>j. enemyVsEnemy i j) [Suc i..<length (enemies t)] t)
           [0..<length (enemies w)] w)"

subsection \<open>The simulation tick\<close>

text \<open>The four lines of \<^verbatim>\<open>update\<close> that move the entities, before the collision pass.\<close>

definition moveEntities :: "Game \<Rightarrow> Game" where
  "moveEntities w =
     (let w = w\<lparr>players := map (Player_update (keys w)) (players w)\<rparr>;
          w = forEach (\<lambda>t. length (enemies t)) update_enemy w;
          w = w\<lparr>platforms := map Platform_update (platforms w)\<rparr>
      in w\<lparr>explosiveBlock := ExplosiveBlock_update (explosiveBlock w)\<rparr>)"

definition update :: "Game \<Rightarrow> Game" where
  "update w =
     (let w =
        (if gameState w = playing then
           (let w = moveEntities w;
                w = handleCollisions w
            in if length (enemies w) = 0 \<and> list_ex (\<lambda>p. \<not> isDead p) (players w)
               then w\<lparr>level := level w + 1, gameState := levelTransition,
                      levelTransitionTimer := LEVEL_TRANSITION_TIME\<rparr>
               else w)
         else if gameState w = levelTransition then
           (let w = w\<lparr>levelTransitionTimer := levelTransitionTimer w - 1000 / 60\<rparr>
            in if levelTransitionTimer w \<le> 0
               then (setupLevel (level w) w)\<lparr>gameState := playing\<rparr>
               else w)
         else w);
          w = w\<lparr>particles := map Particle_update (particles w)\<rparr>
      in w\<lparr>particles := filter (\<lambda>p. life p > 0) (particles w)\<rparr>)"

subsection \<open>The event listeners\<close>

text \<open>\<^verbatim>\<open>players.find(p => p.id === n)?.jump()\<close>\<close>

definition jumpPlayer :: "int \<Rightarrow> Game \<Rightarrow> Game" where
  "jumpPlayer n w =
     (case filter (\<lambda>i. id' (players w ! i) = n) [0..<length (players w)] of
        [] \<Rightarrow> w
      | i # rest \<Rightarrow> modPlayer i Player_jump w)"

text \<open>
  The page: the globals, and the number of debounce timers that the \<^verbatim>\<open>keydown\<close>
  listener has set with \<^verbatim>\<open>setTimeout\<close> and that have not fired yet. All of them carry
  the same callback, which reads and writes globals only.
\<close>

record Page =
  game :: Game
  timers :: nat

text \<open>
  The \<^verbatim>\<open>keydown\<close> and \<^verbatim>\<open>keyup\<close> listeners; \<open>key\<close> is \<^verbatim>\<open>e.key.toLowerCase()\<close>.
\<close>

definition keydown :: "string \<Rightarrow> Page \<Rightarrow> Page" where
  "keydown key s =
     (let w = game s;
          w = w\<lparr>keys := (keys w)(key := True)\<rparr>
      in if gameState w = playing then
           (let w = (if key = ''w'' \<or> key = '' '' then jumpPlayer 1 w else w);
                w = (if key = ''arrowup'' then jumpPlayer 2 w else w);
                w = (if key = ''enter'' then w\<lparr>gameState := paused\<rparr> else w)
            in s\<lparr>game := w\<rparr>)
         else if gameState w = paused then
           (if key = ''enter'' then s\<lparr>game := w, timers := Suc (timers s)\<rparr> else s\<lparr>game := w\<rparr>)
         else if gameState w = playerSelect then
           (let w = (if key = ''arrowdown'' then w\<lparr>playerSelectOption := 2\<rparr> else w);
                w = (if key = ''arrowup'' then w\<lparr>playerSelectOption := 1\<rparr> else w);
                w = (if key = ''enter'' then startGame (playerSelectOption w) w else w)
            in s\<lparr>game := w\<rparr>)
         else if gameState w = gameOver then
           (if key = ''enter'' then s\<lparr>game := w\<lparr>gameState := playerSelect, p2Ui_hidden := True\<rparr>\<rparr>
            else s\<lparr>game := w\<rparr>)
         else s\<lparr>game := w\<rparr>)"

definition keyup :: "string \<Rightarrow> Page \<Rightarrow> Page" where
  "keyup key s = s\<lparr>game := (game s)\<lparr>keys := (keys (game s))(key := False)\<rparr>\<rparr>"

text \<open>
  The callback of the debounce timer, \<^verbatim>\<open>if (keys['enter']) gameState = 'playing'\<close>,
  and the firing of one pending timer.
\<close>

definition debounce :: "Game \<Rightarrow> Game" where
  "debounce w = (if keys w ''enter'' then w\<lparr>gameState := playing\<rparr> else w)"

definition timeout :: "Page \<Rightarrow> Page" where
  "timeout s = (if timers s > 0 then s\<lparr>game := debounce (game s), timers := timers s - 1\<rparr> else s)"

text \<open>
  One turn of \<^verbatim>\<open>gameLoop\<close>: \<^verbatim>\<open>update()\<close>, then \<^verbatim>\<open>draw()\<close>, which writes to the
  canvas only.
\<close>

definition gameLoop :: "Page \<Rightarrow> Page" where
  "gameLoop s = s\<lparr>game := update (game s)\<rparr>"

subsection \<open>Sample states\<close>

text \<open>
  The state of the module once it is loaded, with an empty \<^verbatim>\<open>localStorage\<close>: the
  initial values of the globals, then the first \<^verbatim>\<open>updateUI()\<close>. The source leaves
  \<^verbatim>\<open>explosiveBlock\<close> unassigned until \<^verbatim>\<open>startGame\<close>; the record holds a fresh block.
\<close>

definition initialGame :: "(nat \<Rightarrow> nat) \<Rightarrow> Game" where
  "initialGame rs =
     updateUI
       \<lparr>highScore = 0, level = 1, players = [], enemies = [], platforms = [], particles = [],
        explosiveBlock = ExplosiveBlock_new, keys = (\<lambda>k. False), gameState = playerSelect,
        levelTransitionTimer = 0, playerSelectOption = 1, highScoreEl = [], p1ScoreEl = [],
        p1LivesEl = [], p2ScoreEl = [], p2LivesEl = [], p2Ui_hidden = True,
        localStorage = Map.empty, randoms = rs, randomsUsed = 0\<rparr>"

definition player1 :: Player where
  "player1 = Player_new 1 \<lparr>left = ''a'', right = ''d'', jump = ''w''\<rparr> ROBOT"

text \<open>
  The first level of a one-player match, as \<^verbatim>\<open>startGame(1)\<close> sets it up when every
  \<^verbatim>\<open>Math.random()\<close> returns 0: the floor and the five ledges of the first layout, and
  two basic enemies, both at the left spawn point.
\<close>

definition levelOne :: Game where
  "levelOne = startGame 1 (initialGame (\<lambda>n. 0))"

definition invader :: Enemy where
  "invader = \<lparr>Enemy.x = 150, y = 60, width = 36, height = 36, vx = 1.5, vy = 0,
          sprite = ALIEN_MONSTER, isFlipped = False, flipTimer = 0,
          onGround = False, hitAnimationTimer = 0, kind = BasicEnemy\<rparr>"

text \<open>
  The first level with three enemies built by their constructors in the place of the two
  basic ones: an ice bomber guarding the middle ledge, a tough enemy and a basic enemy.
\<close>

definition raidGame :: Game where
  "raidGame =
     (let w = levelOne;
          (b, w) = IceBomberEnemy_new 0 0 3 w;
          (t, w) = ToughEnemy_new 150 60 w;
          (a, w) = BasicEnemy_new 810 60 w
      in w\<lparr>enemies := [b, t, a]\<rparr>)"

text \<open>The explosive block after three hits and the cooldown of the last one.\<close>

definition spentBlock :: ExplosiveBlock where
  "spentBlock = \<lparr>ExplosiveBlock.x = 455, y = 590, width = 50, height = 0, initialHeight = 50,
                 usesLeft = 0, cooldown = 0\<rparr>"

text \<open>The player falls onto the top edge of the spent block.\<close>

definition fallingGame :: Game where
  "fallingGame = levelOne\<lparr>players := [player1\<lparr>Player.x := 460, Player.y := 555, Player.vy := 3\<rparr>],
                          explosiveBlock := spentBlock\<rparr>"

text \<open>
  A fast enemy that has been flipped, and the player of \<open>levelOne\<close> touching two of them
  at once.
\<close>

definition flippedGhost :: "real \<Rightarrow> real \<Rightarrow> Enemy" where
  "flippedGhost ex ey = flip (Enemy_new ex ey 36 36 GHOST FastEnemy)"

definition duelGame :: Game where
  "duelGame = levelOne\<lparr>enemies := [flippedGhost 400 620, flippedGhost 420 640]\<rparr>"

text \<open>
  The player on its last life and a fast enemy on the floor, one step short of touching
  it: the enemy walks into the player on the next tick.
\<close>

definition lastStand :: Game where
  "lastStand = levelOne\<lparr>players := [player1\<lparr>lives := 1\<rparr>],
                        enemies := [fst (FastEnemy_new 373 644 levelOne)]\<rparr>"

text \<open>
  Enter pressed three times in \<open>lastStand\<close> and held the third time: the first
  \<^verbatim>\<open>keydown\<close> pauses the game, each of the next two sets a debounce timer. Then the first
  timer fires, one turn of the game loop passes, and the second timer fires.
\<close>

definition heldKeys :: "string \<Rightarrow> bool" where
  "heldKeys = (\<lambda>k. False)(''enter'' := True)"

definition pausedTwice :: Page where
  "pausedTwice = keydown ''enter'' (keydown ''enter'' (keydown ''enter'' \<lparr>game = lastStand, timers = 0\<rparr>))"

definition resumed :: Page where
  "resumed = timeout pausedTwice"

definition finished :: Page where
  "finished = gameLoop resumed"

definition revived :: Page where
  "revived = timeout finished"

text \<open>
  A tough enemy as its constructor builds it; the first level with that enemy flipped by
  two triggers; and the enemy after 360 ticks (six seconds) of its \<^verbatim>\<open>update()\<close> there,
  when the flip of \<^verbatim>\<open>FLIP_DURATION = 5000\<close> has worn off.
\<close>

definition ogre :: Enemy where
  "ogre = fst (ToughEnemy_new 150 60 levelOne)"

definition ogreGame :: Game where
  "ogreGame = levelOne\<lparr>enemies := [flip (flip ogre)]\<rparr>"

definition recovered :: Enemy where
  "recovered = enemies ((update_enemy 0 ^^ 360) ogreGame) ! 0"

text \<open>The first level in the state \<^verbatim>\<open>playing\<close> with its only player dead.\<close>

definition graveGame :: Game where
  "graveGame = levelOne\<lparr>players := [player1\<lparr>lives := 0, isDead := True\<rparr>]\<rparr>"

subsection \<open>Vocabulary of the statements\<close>

text \<open>
  Whether \<^verbatim>\<open>flip()\<close> leaves an enemy that was not flipped flipped: never for an ice
  bomber, for a tough enemy only on its last hit, always for the other classes.
\<close>

definition flips :: "Enemy \<Rightarrow> bool" where
  "flips e = (case kind e of IceBomberEnemy t p \<Rightarrow> False | ToughEnemy h \<Rightarrow> h \<le> 1 | _ \<Rightarrow> True)"

text \<open>
  \<open>afterHits n w\<close>: the block of \<open>w\<close> is a fresh block that has since taken \<open>n\<close>
  hits that passed the guard of \<^verbatim>\<open>hit()\<close>, with any number of ticks of
  \<^verbatim>\<open>explosiveBlock.update()\<close> in between.
\<close>

inductive afterHits :: "nat \<Rightarrow> Game \<Rightarrow> bool" where
  fresh: "explosiveBlock w = ExplosiveBlock_new \<Longrightarrow> afterHits 0 w"
| tick: "afterHits n w \<Longrightarrow> afterHits n (w\<lparr>explosiveBlock := ExplosiveBlock_update (explosiveBlock w)\<rparr>)"
| hit: "afterHits n w \<Longrightarrow> usesLeft (explosiveBlock w) > 0 \<Longrightarrow> cooldown (explosiveBlock w) \<le> 0
          \<Longrightarrow> afterHits (Suc n) (hit w)"

definition waitTick :: "Game \<Rightarrow> Game" where
  "waitTick w = w\<lparr>explosiveBlock := ExplosiveBlock_update (explosiveBlock w)\<rparr>"

definition threeHits :: Game where
  "threeHits = hit ((waitTick ^^ 30) (hit ((waitTick ^^ 30) (hit levelOne))))"

text \<open>
  The invariant of a patrolling platform with step \<open>s\<close>: it is less than one step
  outside its bounds, and when it is at or beyond a bound it is heading back.
\<close>

definition patrolling :: "real \<Rightarrow> Platform \<Rightarrow> bool" where
  "patrolling s p \<longleftrightarrow>
     \<bar>Platform.vx p\<bar> = s \<and> startX p - s < Platform.x p \<and> Platform.x p < startX p + range' p + s \<and>
     (Platform.x p \<le> startX p \<longrightarrow> Platform.vx p > 0) \<and>
     (Platform.x p \<ge> startX p + range' p \<longrightarrow> Platform.vx p < 0)"

text \<open>
  \<open>sameFlow w w'\<close>: the step from \<open>w\<close> to \<open>w'\<close> touched neither the players nor the
  game flow. \<open>passKeeps w w'\<close>: what every step of a tick keeps before the level check:
  the roster's length, every score at least what it was, level and transition timer,
  a game-flow state that only moves to \<^verbatim>\<open>gameOver\<close>, and "somebody is alive or the
  game is over".
\<close>

definition sameFlow :: "Game \<Rightarrow> Game \<Rightarrow> bool" where
  "sameFlow w w' \<longleftrightarrow>
     players w' = players w \<and> level w' = level w \<and>
     levelTransitionTimer w' = levelTransitionTimer w \<and> gameState w' = gameState w"

definition someoneAlive :: "Game \<Rightarrow> bool" where
  "someoneAlive w = list_ex (\<lambda>p. \<not> isDead p) (players w)"

definition passKeeps :: "Game \<Rightarrow> Game \<Rightarrow> bool" where
  "passKeeps w w' \<longleftrightarrow>
     length (players w') = length (players w) \<and>
     (\<forall>i < length (players w). score (players w ! i) \<le> score (players w' ! i)) \<and>
     level w' = level w \<and> levelTransitionTimer w' = levelTransitionTimer w \<and>
     (gameState w' = gameState w \<or> gameState w' = gameOver) \<and>
     (someoneAlive w \<or> gameState w = gameOver \<longrightarrow> someoneAlive w' \<or> gameState w' = gameOver)"

text \<open>While a match is being played or is between two levels, some player is alive.\<close>

definition inPlay :: "Game \<Rightarrow> bool" where
  "inPlay w \<longleftrightarrow> (gameState w = playing \<or> gameState w = levelTransition \<longrightarrow> someoneAlive w)"

text \<open>The overlap test of player against enemy in \<^verbatim>\<open>handleCollisions\<close>.\<close>

definition touches :: "Player \<Rightarrow> Enemy \<Rightarrow> bool" where
  "touches player enemy \<longleftrightarrow>
     Player.x player < Enemy.x enemy + Enemy.width enemy \<and>
     Player.x player + Player.width player > Enemy.x enemy \<and>
     Player.y player < Enemy.y enemy + Enemy.height enemy \<and>
     Player.y player + Player.height player > Enemy.y enemy"

text \<open>
  The two tests of player against platform in \<^verbatim>\<open>handleCollisions\<close>: landing on it, and
  hitting it from below.
\<close>

definition landsOn :: "Player \<Rightarrow> Platform \<Rightarrow> bool" where
  "landsOn player p \<longleftrightarrow>
     Player.x player < Platform.x p + Platform.width p \<and>
     Player.x player + Player.width player > Platform.x p \<and>
     Player.y player + Player.height player \<ge> Platform.y p \<and>
     Player.y player + Player.height player \<le> Platform.y p + Platform.height p + Player.vy player \<and>
     Player.vy player \<ge> 0"

definition bumps :: "Player \<Rightarrow> Platform \<Rightarrow> bool" where
  "bumps player p \<longleftrightarrow>
     Player.x player < Platform.x p + Platform.width p \<and>
     Player.x player + Player.width player > Platform.x p \<and>
     Player.y player > Platform.y p \<and>
     Player.y player \<le> Platform.y p + Platform.height p \<and> Player.vy player < 0"

text \<open>
  One operation of the simulation on a match: the collision pass, an award of points
  (the source awards 50 and 200), a death, the set-up of the current level, a tick.
\<close>

inductive simStep :: "Game \<Rightarrow> Game \<Rightarrow> bool" where
  collisions: "simStep w (handleCollisions w)"
| award: "i < length (players w) \<Longrightarrow> 0 \<le> points \<Longrightarrow> simStep w (addScore i points w)"
| death: "i < length (players w) \<Longrightarrow> simStep w (die i w)"
| levelSetup: "simStep w (setupLevel (level w) w)"
| tick: "simStep w (update w)"

section \<open>Frame lemmas\<close>

text \<open>What the helpers of the simulation leave alone.\<close>

lemma Math_random_frame [simp]:
  "players (snd (Math_random w)) = players w"
  "enemies (snd (Math_random w)) = enemies w"
  "platforms (snd (Math_random w)) = platforms w"
  "particles (snd (Math_random w)) = particles w"
  "explosiveBlock (snd (Math_random w)) = explosiveBlock w"
  "gameState (snd (Math_random w)) = gameState w"
  "highScore (snd (Math_random w)) = highScore w"
  "level (snd (Math_random w)) = level w"
  by (simp_all add: Math_random_def)

lemma randomInt_frame [simp]:
  "players (snd (randomInt a b w)) = players w"
  "enemies (snd (randomInt a b w)) = enemies w"
  "platforms (snd (randomInt a b w)) = platforms w"
  "particles (snd (randomInt a b w)) = particles w"
  "explosiveBlock (snd (randomInt a b w)) = explosiveBlock w"
  "gameState (snd (randomInt a b w)) = gameState w"
  "highScore (snd (randomInt a b w)) = highScore w"
  "level (snd (randomInt a b w)) = level w"
  by (simp_all add: randomInt_def split_beta Let_def)

lemma Particle_new_frame [simp]:
  "players (snd (Particle_new px py s w)) = players w"
  "enemies (snd (Particle_new px py s w)) = enemies w"
  "platforms (snd (Particle_new px py s w)) = platforms w"
  "particles (snd (Particle_new px py s w)) = particles w"
  "explosiveBlock (snd (Particle_new px py s w)) = explosiveBlock w"
  "gameState (snd (Particle_new px py s w)) = gameState w"
  "highScore (snd (Particle_new px py s w)) = highScore w"
  "level (snd (Particle_new px py s w)) = level w"
  by (simp_all add: Particle_new_def split_beta Let_def)

lemma Particle_new_fields [simp]:
  "Particle.x (fst (Particle_new px py s w)) = px"
  "Particle.y (fst (Particle_new px py s w)) = py"
  "Particle.sprite (fst (Particle_new px py s w)) = s"
  "life (fst (Particle_new px py s w)) = 100"
  by (simp_all add: Particle_new_def split_beta Let_def)

lemma spawnParticles_0 [simp]: "spawnParticles 0 px py s w = w"
  by (simp add: spawnParticles_def)

lemma spawnParticles_Suc:
  "spawnParticles (Suc n) px py s w =
     (let t = spawnParticles n px py s w; r = Particle_new px py s t
      in (snd r)\<lparr>particles := particles (snd r) @ [fst r]\<rparr>)"
  by (simp add: spawnParticles_def split_beta Let_def)

lemma spawnParticles_frame [simp]:
  "players (spawnParticles n px py s w) = players w"
  "enemies (spawnParticles n px py s w) = enemies w"
  "platforms (spawnParticles n px py s w) = platforms w"
  "explosiveBlock (spawnParticles n px py s w) = explosiveBlock w"
  "gameState (spawnParticles n px py s w) = gameState w"
  "highScore (spawnParticles n px py s w) = highScore w"
  "level (spawnParticles n px py s w) = level w"
  by (induction n; simp add: spawnParticles_Suc Let_def)+

text \<open>A burst of \<open>n\<close> particles appends exactly \<open>n\<close> particles, all at the given place.\<close>

lemma spawnParticles_particles:
  "\<exists>ps. particles (spawnParticles n px py s w) = particles w @ ps \<and> length ps = n \<and>
        (\<forall>p \<in> set ps. Particle.x p = px \<and> Particle.y p = py \<and> Particle.sprite p = s)"
proof (induction n)
  case 0
  then show ?case by simp
next
  case (Suc n)
  then obtain ps where ps: "particles (spawnParticles n px py s w) = particles w @ ps"
    "length ps = n" "\<forall>p \<in> set ps. Particle.x p = px \<and> Particle.y p = py \<and> Particle.sprite p = s"
    by blast
  let ?q = "fst (Particle_new px py s (spawnParticles n px py s w))"
  have "particles (spawnParticles (Suc n) px py s w) = particles w @ (ps @ [?q])"
    by (simp add: spawnParticles_Suc Let_def ps)
  moreover have "length (ps @ [?q]) = Suc n" by (simp add: ps)
  moreover have "\<forall>p \<in> set (ps @ [?q]). Particle.x p = px \<and> Particle.y p = py \<and> Particle.sprite p = s"
    using ps(3) by simp
  ultimately show ?case by blast
qed

lemma updateUI_frame [simp]:
  "players (updateUI w) = players w"
  "enemies (updateUI w) = enemies w"
  "platforms (updateUI w) = platforms w"
  "particles (updateUI w) = particles w"
  "explosiveBlock (updateUI w) = explosiveBlock w"
  "gameState (updateUI w) = gameState w"
  "highScore (updateUI w) = highScore w"
  "level (updateUI w) = level w"
  by (simp_all add: updateUI_def Let_def)

lemma modPlayer_frame [simp]:
  "players (modPlayer i f w) = (players w)[i := f (players w ! i)]"
  "enemies (modPlayer i f w) = enemies w"
  "platforms (modPlayer i f w) = platforms w"
  "particles (modPlayer i f w) = particles w"
  "explosiveBlock (modPlayer i f w) = explosiveBlock w"
  "gameState (modPlayer i f w) = gameState w"
  "highScore (modPlayer i f w) = highScore w"
  "level (modPlayer i f w) = level w"
  by (simp_all add: modPlayer_def)

lemma modEnemy_frame [simp]:
  "players (modEnemy i f w) = players w"
  "enemies (modEnemy i f w) = (enemies w)[i := f (enemies w ! i)]"
  "platforms (modEnemy i f w) = platforms w"
  "particles (modEnemy i f w) = particles w"
  "explosiveBlock (modEnemy i f w) = explosiveBlock w"
  "gameState (modEnemy i f w) = gameState w"
  "highScore (modEnemy i f w) = highScore w"
  "level (modEnemy i f w) = level w"
  by (simp_all add: modEnemy_def)

lemma timer_frames [simp]:
  "levelTransitionTimer (snd (Math_random w)) = levelTransitionTimer w"
  "levelTransitionTimer (snd (randomInt a b w)) = levelTransitionTimer w"
  "levelTransitionTimer (snd (Particle_new px py s w)) = levelTransitionTimer w"
  "levelTransitionTimer (updateUI w) = levelTransitionTimer w"
  "levelTransitionTimer (modPlayer i f w) = levelTransitionTimer w"
  "levelTransitionTimer (modEnemy i g w) = levelTransitionTimer w"
  by (simp_all add: Math_random_def randomInt_def Particle_new_def updateUI_def modPlayer_def
      modEnemy_def split_beta Let_def)

lemma timer_spawnParticles [simp]:
  "levelTransitionTimer (spawnParticles n px py s w) = levelTransitionTimer w"
  by (induction n) (simp_all add: spawnParticles_Suc Let_def)

lemma fold_invariant: "P s \<Longrightarrow> (\<And>x t. P t \<Longrightarrow> P (f x t)) \<Longrightarrow> P (fold f xs s)"
  by (induction xs arbitrary: s) auto

lemma forEach_invariant: "P s \<Longrightarrow> (\<And>k t. P t \<Longrightarrow> P (body k t)) \<Longrightarrow> P (forEach len body s)"
  unfolding forEach_def by (rule fold_invariant) auto

lemma forEach_invariant_guarded:
  "P s \<Longrightarrow> (\<And>k t. P t \<Longrightarrow> k < len t \<Longrightarrow> P (body k t)) \<Longrightarrow> P (forEach len body s)"
  unfolding forEach_def by (rule fold_invariant) auto

lemma keys_frame [simp]:
  "keys (snd (Math_random w)) = keys w"
  "keys (snd (randomInt a b w)) = keys w"
  "keys (snd (Particle_new px py s w)) = keys w"
  "keys (updateUI w) = keys w"
  by (simp_all add: Math_random_def randomInt_def Particle_new_def updateUI_def split_beta Let_def)

lemma keys_spawnParticles [simp]: "keys (spawnParticles n px py s w) = keys w"
  by (induction n; simp add: spawnParticles_Suc Let_def)

lemma gameState_spawnEnemy [simp]: "gameState (spawnEnemy l w) = gameState w"
  by (simp add: spawnEnemy_def BasicEnemy_new_def FastEnemy_new_def JumpingEnemy_new_def
      IceBomberEnemy_new_def ToughEnemy_new_def split_beta Let_def)

lemma gameState_setupLevel [simp]: "gameState (setupLevel n w) = gameState w"
proof -
  have f: "gameState (fold (\<lambda>i. spawnEnemy l) xs t) = gameState t" for l xs t
    by (induction xs arbitrary: t) simp_all
  show ?thesis by (simp add: setupLevel_def Let_def f)
qed

section \<open>The sample states, evaluated\<close>

lemma initialGame_eq:
  "initialGame rs =
       \<lparr>highScore = 0, level = 1, players = [], enemies = [], platforms = [], particles = [],
        explosiveBlock = ExplosiveBlock_new, keys = (\<lambda>k. False), gameState = playerSelect,
        levelTransitionTimer = 0, playerSelectOption = 1, highScoreEl = ''000000'', p1ScoreEl = [],
        p1LivesEl = [], p2ScoreEl = [], p2LivesEl = [], p2Ui_hidden = True,
        localStorage = Map.empty, randoms = rs, randomsUsed = 0\<rparr>"
  by (simp add: initialGame_def updateUI_def toString_def padStart_def digits.simps eval_nat_numeral)

lemma player1_eq:
  "player1 = \<lparr>id' = 1, x = 410, y = 630, width = 40, height = 40, vx = 0, vy = 0,
      onGround = False, sprite = ROBOT, onFrozenPlatform = False,
      controls = \<lparr>left = ''a'', right = ''d'', jump = ''w''\<rparr>,
      isDead = False, score = 0, lives = 3, nextExtraLifeScore = 20000\<rparr>"
  by (simp add: player1_def Player_new_def)

lemma flippedGhost_eq:
  "flippedGhost ex ey = \<lparr>Enemy.x = ex, y = ey, width = 36, height = 36, vx = 0, vy = - 5, sprite = GHOST,
       isFlipped = True, flipTimer = 5000, onGround = False, hitAnimationTimer = 0,
       kind = FastEnemy\<rparr>"
  by (simp add: flippedGhost_def flip_def Enemy_flip_def Enemy_new_def)

text \<open>With the random numbers all 0, every enemy spawned below level 5 is \<open>invader\<close>.\<close>

lemma Math_random_zero:
  "randoms w = (\<lambda>n. 0) \<Longrightarrow> Math_random w = (0, w\<lparr>randomsUsed := Suc (randomsUsed w)\<rparr>)"
  by (simp add: Math_random_def)

lemma randomInt_zero:
  "randoms w = (\<lambda>n. 0) \<Longrightarrow> randomInt lo hi w = (lo, w\<lparr>randomsUsed := Suc (randomsUsed w)\<rparr>)"
  by (simp add: randomInt_def Math_random_zero)

lemma spawnEnemy_zero:
  assumes "randoms w = (\<lambda>n. 0)" "l < 5"
  shows "spawnEnemy l w = w\<lparr>randomsUsed := Suc (Suc (Suc (randomsUsed w))), enemies := enemies w @ [invader]\<rparr>"
proof -
  let ?w1 = "w\<lparr>randomsUsed := Suc (randomsUsed w)\<rparr>"
  let ?w2 = "w\<lparr>randomsUsed := Suc (Suc (randomsUsed w))\<rparr>"
  let ?w3 = "w\<lparr>randomsUsed := Suc (Suc (Suc (randomsUsed w)))\<rparr>"
  have 1: "randomInt 0 1 w = (0, ?w1)"
    using assms(1) by (rule randomInt_zero)
  have 2: "Math_random ?w1 = (0, ?w2)"
    using Math_random_zero [of ?w1] assms(1) by simp
  have 3: "BasicEnemy_new 150 60 ?w2 = (invader, ?w3)"
    using Math_random_zero [of ?w2] assms(1)
    by (simp add: BasicEnemy_new_def Enemy_new_def invader_def)
  show ?thesis
    using assms(2) by (simp add: spawnEnemy_def 1 2 3 spawnPoints_def)
qed

lemma setupLevel_one_zero:
  assumes "randoms w = (\<lambda>n. 0)"
  shows "setupLevel 1 w =
     w\<lparr>platforms := [Platform_new 0 680 960 40 True,
        Platform_new 0 550 250 20 False,
        Platform_new 710 550 250 20 False,
        Platform_new 300 400 360 20 False,
        Platform_new 0 250 350 20 False,
        Platform_new 610 250 350 20 False],
       enemies := [invader, invader],
       explosiveBlock := reset (explosiveBlock w),
       randomsUsed := randomsUsed w + 6\<rparr>"
proof -
  let ?w0 = "w\<lparr>platforms := [Platform_new 0 680 960 40 True,
        Platform_new 0 550 250 20 False,
        Platform_new 710 550 250 20 False,
        Platform_new 300 400 360 20 False,
        Platform_new 0 250 350 20 False,
        Platform_new 610 250 350 20 False],
       enemies := [],
       explosiveBlock := reset (explosiveBlock w)\<rparr>"
  have u: "[0..<nat (2 + min 1 50 div 2)] = [0, 1]"
    by (simp add: upt_rec)
  have a: "setupLevel 1 w = fold (\<lambda>i. spawnEnemy 1) [0, 1] ?w0"
    unfolding setupLevel_def Let_def u
    by (simp add: levelLayouts_def Platform_new_def)
  have b: "spawnEnemy 1 ?w0 = ?w0\<lparr>randomsUsed := Suc (Suc (Suc (randomsUsed w))), enemies := [invader]\<rparr>"
    using spawnEnemy_zero [of ?w0 1] assms by simp
  have c: "spawnEnemy 1 (?w0\<lparr>randomsUsed := Suc (Suc (Suc (randomsUsed w))), enemies := [invader]\<rparr>)
      = ?w0\<lparr>randomsUsed := randomsUsed w + 6, enemies := [invader, invader]\<rparr>"
    using spawnEnemy_zero [of "?w0\<lparr>randomsUsed := Suc (Suc (Suc (randomsUsed w))), enemies := [invader]\<rparr>" 1] assms
    by simp
  have "fold (\<lambda>i. spawnEnemy 1) [0, 1] ?w0 = spawnEnemy 1 (spawnEnemy 1 ?w0)"
    by simp
  with a have "setupLevel 1 w = spawnEnemy 1 (spawnEnemy 1 ?w0)"
    by (rule trans)
  also have "\<dots> = ?w0\<lparr>randomsUsed := randomsUsed w + 6, enemies := [invader, invader]\<rparr>"
    by (simp only: b c)
  finally show ?thesis by simp
qed

lemma levelOne_eq:
  "levelOne =
    \<lparr>highScore = 0, level = 1, players = [player1],
     enemies = [invader, invader],
     platforms =
       [Platform_new 0 680 960 40 True,
        Platform_new 0 550 250 20 False,
        Platform_new 710 550 250 20 False,
        Platform_new 300 400 360 20 False,
        Platform_new 0 250 350 20 False,
        Platform_new 610 250 350 20 False],
     particles = [], explosiveBlock = ExplosiveBlock_new, keys = (\<lambda>k. False),
     gameState = playing, levelTransitionTimer = 0, playerSelectOption = 1,
     highScoreEl = ''000000'', p1ScoreEl = ''000000'', p1LivesEl = ''3'', p2ScoreEl = [],
     p2LivesEl = [], p2Ui_hidden = True, localStorage = Map.empty, randoms = (\<lambda>n. 0),
     randomsUsed = 6\<rparr>"
proof -
  let ?w = "\<lparr>highScore = 0, level = 1, players = [player1], enemies = [], platforms = [], particles = [],
        explosiveBlock = ExplosiveBlock_new, keys = (\<lambda>k. False), gameState = playerSelect,
        levelTransitionTimer = 0, playerSelectOption = 1, highScoreEl = ''000000'', p1ScoreEl = [],
        p1LivesEl = [], p2ScoreEl = [], p2LivesEl = [], p2Ui_hidden = True,
        localStorage = Map.empty, randoms = (\<lambda>n. 0), randomsUsed = 0\<rparr>"
  have s: "setupLevel 1 ?w = ?w\<lparr>platforms := [Platform_new 0 680 960 40 True,
        Platform_new 0 550 250 20 False,
        Platform_new 710 550 250 20 False,
        Platform_new 300 400 360 20 False,
        Platform_new 0 250 350 20 False,
        Platform_new 610 250 350 20 False],
       enemies := [invader, invader],
       explosiveBlock := reset (explosiveBlock ?w),
       randomsUsed := randomsUsed ?w + 6\<rparr>"
    by (rule setupLevel_one_zero) simp
  have r: "reset ExplosiveBlock_new = ExplosiveBlock_new"
    by (simp add: reset_def ExplosiveBlock_new_def)
  have d: "padStart 6 CHR ''0'' (toString 0) = ''000000''" "toString 3 = ''3''"
    by (simp_all add: toString_def padStart_def digits.simps eval_nat_numeral)
  have g: "startGame 1 (initialGame (\<lambda>n. 0)) = (updateUI (setupLevel 1 ?w))\<lparr>gameState := playing\<rparr>"
    by (simp add: startGame_def initialGame_eq player1_def Let_def)
  show ?thesis
    unfolding levelOne_def g s
    by (simp add: r updateUI_def d player1_def Player_new_def)
qed

lemma levelOne_fields:
  "players levelOne = [player1]" "enemies levelOne = [invader, invader]"
  "explosiveBlock levelOne = ExplosiveBlock_new" "gameState levelOne = playing"
  "level levelOne = 1" "particles levelOne = []" "randoms levelOne = (\<lambda>n. 0)"
  "platforms levelOne = [Platform_new 0 680 960 40 True,
        Platform_new 0 550 250 20 False,
        Platform_new 710 550 250 20 False,
        Platform_new 300 400 360 20 False,
        Platform_new 0 250 350 20 False,
        Platform_new 610 250 350 20 False]"
  by (simp_all add: levelOne_eq)

lemma raidGame_enemies:
  "enemies raidGame =
     [\<lparr>Enemy.x = 462, y = 364, width = 36, height = 36, vx = 0, vy = 0, sprite = BOMB,
       isFlipped = False, flipTimer = 0, onGround = False, hitAnimationTimer = 0,
       kind = IceBomberEnemy 3000 (Some 3)\<rparr>,
      \<lparr>Enemy.x = 150, y = 60, width = 40, height = 40, vx = 1.05, vy = 0, sprite = OGRE,
       isFlipped = False, flipTimer = 0, onGround = False, hitAnimationTimer = 0,
       kind = ToughEnemy 2\<rparr>,
      \<lparr>Enemy.x = 810, y = 60, width = 36, height = 36, vx = 1.5, vy = 0, sprite = ALIEN_MONSTER,
       isFlipped = False, flipTimer = 0, onGround = False, hitAnimationTimer = 0,
       kind = BasicEnemy\<rparr>]"
  by (simp add: raidGame_def levelOne_eq IceBomberEnemy_new_def ToughEnemy_new_def
      BasicEnemy_new_def Enemy_new_def Platform_new_def randomInt_def Math_random_def
      Let_def split_beta)

lemma raidGame_block: "explosiveBlock raidGame = ExplosiveBlock_new"
  by (simp add: raidGame_def levelOne_fields IceBomberEnemy_new_def ToughEnemy_new_def
      BasicEnemy_new_def Let_def split_beta)

section \<open>The explosive block\<close>

lemma hit_blocked:
  "\<not> (usesLeft (explosiveBlock w) > 0 \<and> cooldown (explosiveBlock w) \<le> 0) \<Longrightarrow> hit w = w"
  by (auto simp add: hit_def)

lemma hit_block:
  "usesLeft (explosiveBlock w) > 0 \<Longrightarrow> cooldown (explosiveBlock w) \<le> 0 \<Longrightarrow>
   explosiveBlock (hit w) = (explosiveBlock w)
     \<lparr>usesLeft := usesLeft (explosiveBlock w) - 1, cooldown := 500,
      ExplosiveBlock.height := ExplosiveBlock.height (explosiveBlock w) - initialHeight (explosiveBlock w) / 3,
      ExplosiveBlock.y := ExplosiveBlock.y (explosiveBlock w) + initialHeight (explosiveBlock w) / 3\<rparr>"
  by (simp add: hit_def Let_def)

lemma isFlipped_flip: "\<not> isFlipped e \<Longrightarrow> isFlipped (flip e) = flips e"
  by (cases "kind e")
    (auto simp add: flips_def flip_def Enemy_flip_def IceBomberEnemy_flip_def
      ToughEnemy_flip_def Let_def)

text \<open>
  Hits that pass the guard number at most three; each lowers the block by a third of its
  initial height, which never changes.
\<close>

lemma afterHits_inv:
  "afterHits n w \<Longrightarrow>
     initialHeight (explosiveBlock w) = 50 \<and> usesLeft (explosiveBlock w) = 3 - int n \<and> n \<le> 3 \<and>
     ExplosiveBlock.height (explosiveBlock w) = 50 - real n * (50 / 3) \<and>
     ExplosiveBlock.y (explosiveBlock w) = 540 + real n * (50 / 3)"
proof (induction rule: afterHits.induct)
  case (fresh w)
  then show ?case by (simp add: ExplosiveBlock_new_def)
next
  case (tick n w)
  then show ?case by (simp add: ExplosiveBlock_update_def)
next
  case (hit n w)
  then show ?case by (simp add: hit_block field_simps)
qed

lemma afterHits_wait: "afterHits n w \<Longrightarrow> afterHits n ((waitTick ^^ k) w)"
  by (induction k) (simp_all add: waitTick_def afterHits.tick)

text \<open>Thirty ticks are the cooldown of one hit: \<open>30 * (1000 / 60) = 500\<close>.\<close>

lemma cooled:
  "cooldown (explosiveBlock w) = 500 \<Longrightarrow>
   explosiveBlock ((waitTick ^^ 30) w) = (explosiveBlock w)\<lparr>cooldown := 0\<rparr>"
  by (simp add: eval_nat_numeral waitTick_def ExplosiveBlock_update_def)

lemma afterHits_threeHits: "afterHits 3 threeHits"
proof -
  have 0: "afterHits 0 levelOne" by (simp add: afterHits.fresh levelOne_fields(3))
  have b1: "explosiveBlock (hit levelOne) = ExplosiveBlock_new\<lparr>usesLeft := 2, cooldown := 500,
      ExplosiveBlock.height := 100 / 3, ExplosiveBlock.y := 540 + 50 / 3\<rparr>"
    by (simp add: hit_block levelOne_fields(3) ExplosiveBlock_new_def)
  have 1: "afterHits 1 (hit levelOne)"
    using afterHits.hit [OF 0] by (simp add: levelOne_fields(3) ExplosiveBlock_new_def)
  let ?w1 = "(waitTick ^^ 30) (hit levelOne)"
  have c1: "explosiveBlock ?w1 = ExplosiveBlock_new\<lparr>usesLeft := 2, cooldown := 0,
      ExplosiveBlock.height := 100 / 3, ExplosiveBlock.y := 540 + 50 / 3\<rparr>"
    by (simp add: cooled b1)
  have 2: "afterHits 2 (hit ?w1)"
    using afterHits.hit [OF afterHits_wait [OF 1, of 30]]
    by (simp add: c1 ExplosiveBlock_new_def numeral_2_eq_2)
  have b2: "explosiveBlock (hit ?w1) = ExplosiveBlock_new\<lparr>usesLeft := 1, cooldown := 500,
      ExplosiveBlock.height := 50 / 3, ExplosiveBlock.y := 540 + 100 / 3\<rparr>"
    by (simp add: hit_block c1 ExplosiveBlock_new_def)
  let ?w2 = "(waitTick ^^ 30) (hit ?w1)"
  have c2: "explosiveBlock ?w2 = ExplosiveBlock_new\<lparr>usesLeft := 1, cooldown := 0,
      ExplosiveBlock.height := 50 / 3, ExplosiveBlock.y := 540 + 100 / 3\<rparr>"
    by (simp add: cooled b2)
  have "afterHits 3 (hit ?w2)"
    using afterHits.hit [OF afterHits_wait [OF 2, of 30]]
    by (simp add: c2 ExplosiveBlock_new_def numeral_3_eq_3 numeral_2_eq_2)
  then show ?thesis by (simp add: threeHits_def)
qed

text \<open>The spent block of the sample states is the block a match arrives at.\<close>

lemma spentBlock_reached: "explosiveBlock ((waitTick ^^ 30) threeHits) = spentBlock"
proof -
  have b: "explosiveBlock (hit levelOne) = ExplosiveBlock_new\<lparr>usesLeft := 2, cooldown := 500,
      ExplosiveBlock.height := 100 / 3, ExplosiveBlock.y := 540 + 50 / 3\<rparr>"
    by (simp add: hit_block levelOne_fields(3) ExplosiveBlock_new_def)
  have c: "explosiveBlock (hit ((waitTick ^^ 30) (hit levelOne))) =
      ExplosiveBlock_new\<lparr>usesLeft := 1, cooldown := 500,
      ExplosiveBlock.height := 50 / 3, ExplosiveBlock.y := 540 + 100 / 3\<rparr>"
    by (simp add: hit_block cooled b ExplosiveBlock_new_def)
  have d: "explosiveBlock threeHits = ExplosiveBlock_new\<lparr>usesLeft := 0, cooldown := 500,
      ExplosiveBlock.height := 0, ExplosiveBlock.y := 590\<rparr>"
    by (simp add: threeHits_def hit_block cooled c ExplosiveBlock_new_def)
  show ?thesis
    by (simp add: cooled d ExplosiveBlock_new_def spentBlock_def)
qed

section \<open>Patrolling platforms\<close>

lemma Platform_update_fixed [simp]:
  "startX (Platform_update p) = startX p" "range' (Platform_update p) = range' p"
  by (simp_all add: Platform_update_def Let_def)

lemma patrolling_update:
  assumes "patrolling s p" "0 < s"
  shows "patrolling s (Platform_update p)"
proof -
  let ?q = "(if isFrozen p then
                 (let p = p\<lparr>frozenTimer := frozenTimer p - 1000 / 60\<rparr>
                  in if frozenTimer p \<le> 0 then p\<lparr>isFrozen := False\<rparr> else p)
               else p)"
  have q: "Platform.x ?q = Platform.x p" "Platform.vx ?q = Platform.vx p"
    "startX ?q = startX p" "range' ?q = range' p"
    by (simp_all add: Let_def)
  have nz: "Platform.vx p \<noteq> 0" using assms by (auto simp add: patrolling_def)
  show ?thesis
  proof (cases "Platform.vx p > 0")
    case True
    then show ?thesis using assms nz
      unfolding patrolling_def Platform_update_def Let_def
      by (auto simp add: q split: if_splits)
  next
    case False
    then have "Platform.vx p < 0" using nz by simp
    then show ?thesis using assms nz
      unfolding patrolling_def Platform_update_def Let_def
      by (auto simp add: q split: if_splits)
  qed
qed

lemma patrolling_funpow:
  "patrolling s p \<Longrightarrow> 0 < s \<Longrightarrow> patrolling s ((Platform_update ^^ n) p) \<and>
     startX ((Platform_update ^^ n) p) = startX p \<and> range' ((Platform_update ^^ n) p) = range' p"
  by (induction n) (simp_all add: patrolling_update)

lemma patrolling_makeMobile:
  "speed \<noteq> 0 \<Longrightarrow> 0 < rng \<Longrightarrow>
   patrolling \<bar>speed\<bar> (makeMobile speed rng (Platform_new px py w h fl))"
  by (auto simp add: patrolling_def makeMobile_def Platform_new_def Let_def)

section \<open>What a tick keeps\<close>

lemma sameFlow_refl [simp]: "sameFlow w w"
  by (simp add: sameFlow_def)

lemma sameFlow_trans: "sameFlow a b \<Longrightarrow> sameFlow b c \<Longrightarrow> sameFlow a c"
  by (simp add: sameFlow_def)

lemma passKeeps_refl [simp]: "passKeeps w w"
  by (simp add: passKeeps_def)

lemma passKeeps_trans: "passKeeps a b \<Longrightarrow> passKeeps b c \<Longrightarrow> passKeeps a c"
  unfolding passKeeps_def by (auto intro: order_trans)

lemma sameFlow_passKeeps: "sameFlow w w' \<Longrightarrow> passKeeps w w'"
  by (simp add: sameFlow_def passKeeps_def someoneAlive_def)

lemma passKeeps_sameFlow: "passKeeps a b \<Longrightarrow> sameFlow b c \<Longrightarrow> passKeeps a c"
  using passKeeps_trans sameFlow_passKeeps by blast

lemma sameFlow_basic [simp]:
  "sameFlow w (snd (Math_random w))"
  "sameFlow w (snd (randomInt a b w))"
  "sameFlow w (spawnParticles n px py s w)"
  "sameFlow w (updateUI w)"
  "sameFlow w (modEnemy k g w)"
  by (simp_all add: sameFlow_def)

lemma sameFlow_hit: "sameFlow w (hit w)"
  by (simp add: hit_def sameFlow_def Let_def)

lemma sameFlow_Enemy_update: "sameFlow w (Enemy_update k w)"
  by (simp add: Enemy_update_def sameFlow_def Let_def split_beta)

lemma sameFlow_explode: "sameFlow w (explode k w)"
  by (simp add: explode_def sameFlow_def Let_def split: EnemyClass.split option.split)

lemma sameFlow_update_enemy: "sameFlow w (update_enemy k w)"
proof -
  have e: "\<And>f t. sameFlow w t \<Longrightarrow> sameFlow w (modEnemy k f t)"
    by (simp add: sameFlow_def)
  have r: "\<And>a b t. sameFlow w t \<Longrightarrow> sameFlow w (snd (randomInt a b t))"
    by (simp add: sameFlow_def)
  have x: "\<And>t. sameFlow w t \<Longrightarrow> sameFlow w (explode k t)"
    using sameFlow_explode sameFlow_trans by blast
  show ?thesis
    unfolding update_enemy_def BasicEnemy_update_def FastEnemy_update_def ToughEnemy_update_def
      JumpingEnemy_update_def IceBomberEnemy_update_def Let_def split_beta
    by (auto split: EnemyClass.split option.split intro!: e r x sameFlow_Enemy_update)
qed

lemma sameFlow_enemyVsEnemy: "sameFlow w (enemyVsEnemy i j w)"
  by (simp add: enemyVsEnemy_def sameFlow_def Let_def)

lemma someoneAlive_map: "someoneAlive w \<longleftrightarrow> False \<in> set (map isDead (players w))"
  by (auto simp add: someoneAlive_def list_ex_iff)

lemma score_list_update:
  "(\<And>p. score p \<le> score (f p)) \<Longrightarrow> j < length ps \<Longrightarrow>
   score (ps ! j) \<le> score (ps[i := f (ps ! i)] ! j)"
  by (cases "i = j") simp_all

text \<open>A write to one player that keeps its dead flag and does not lower its score.\<close>

lemma passKeeps_modPlayer:
  assumes "\<And>p. isDead (f p) = isDead p" "\<And>p. score p \<le> score (f p)"
  shows "passKeeps w (modPlayer i f w)"
proof -
  have "map isDead ((players w)[i := f (players w ! i)]) = map isDead (players w)"
    by (cases "i < length (players w)")
      (simp_all add: map_update assms(1) list_update_same_conv list_update_beyond)
  then have a: "someoneAlive (modPlayer i f w) = someoneAlive w"
    by (simp add: someoneAlive_map)
  show ?thesis
    unfolding passKeeps_def
    by (simp add: a score_list_update assms(2))
qed

lemma checkGameOver_frame [simp]:
  "players (checkGameOver w) = players w"
  "level (checkGameOver w) = level w"
  "levelTransitionTimer (checkGameOver w) = levelTransitionTimer w"
  by (simp_all add: checkGameOver_def Let_def)

lemma checkGameOver_flow:
  "someoneAlive (checkGameOver w) \<or> gameState (checkGameOver w) = gameOver"
  by (auto simp add: checkGameOver_def someoneAlive_def Let_def list_ex_iff list_all_iff)

lemma checkGameOver_state:
  "gameState (checkGameOver w) = gameState w \<or> gameState (checkGameOver w) = gameOver"
  by (simp add: checkGameOver_def Let_def)

text \<open>The last life: the player is marked dead and \<^verbatim>\<open>checkGameOver\<close> runs.\<close>

lemma passKeeps_kill: "passKeeps w (checkGameOver (modPlayer i (\<lambda>p. p\<lparr>isDead := True\<rparr>) w))"
  unfolding passKeeps_def
  using checkGameOver_flow [of "modPlayer i (\<lambda>p. p\<lparr>isDead := True\<rparr>) w"]
    checkGameOver_state [of "modPlayer i (\<lambda>p. p\<lparr>isDead := True\<rparr>) w"]
  by (simp add: score_list_update)

lemma passKeeps_die: "passKeeps w (die i w)"
proof (cases "isDead (players w ! i)")
  case True
  then show ?thesis by (simp add: die_def)
next
  case False
  let ?w1 = "modPlayer i (\<lambda>p. p\<lparr>lives := lives p - 1\<rparr>) w"
  let ?w3 = "spawnParticles 50
                  (Player.x (players (updateUI ?w1) ! i) + Player.width (players (updateUI ?w1) ! i) / 2)
                  (Player.y (players (updateUI ?w1) ! i) + Player.height (players (updateUI ?w1) ! i) / 2)
                  (Player.sprite (players (updateUI ?w1) ! i)) (updateUI ?w1)"
  have 1: "passKeeps w ?w1" by (rule passKeeps_modPlayer) simp_all
  have 3: "passKeeps w ?w3"
    by (rule passKeeps_sameFlow [OF passKeeps_sameFlow [OF 1 sameFlow_basic(4)] sameFlow_basic(3)])
  show ?thesis
  proof (cases "lives (players ?w3 ! i) \<le> 0")
    case True
    have d: "die i w = checkGameOver (modPlayer i (\<lambda>p. p\<lparr>isDead := True\<rparr>) ?w3)"
      using False True by (simp add: die_def Let_def)
    show ?thesis
      unfolding d by (rule passKeeps_trans [OF 3 passKeeps_kill])
  next
    case False
    have d: "die i w = modPlayer i (\<lambda>p. p\<lparr>Player.x := GAME_WIDTH / 2 - Player.width p / 2,
                                    Player.y := GAME_HEIGHT - Player.height p - 100,
                                    Player.vx := 0, Player.vy := 0\<rparr>) ?w3"
      using False \<open>\<not> isDead (players w ! i)\<close> by (simp add: die_def Let_def)
    show ?thesis
      unfolding d by (rule passKeeps_trans [OF 3]) (rule passKeeps_modPlayer, simp_all)
  qed
qed

lemma passKeeps_addScore: "0 \<le> points \<Longrightarrow> passKeeps w (addScore i points w)"
proof -
  assume p: "0 \<le> points"
  let ?w1 = "modPlayer i (\<lambda>p. p\<lparr>score := score p + points\<rparr>) w"
  let ?w2 = "(if score (players ?w1 ! i) \<ge> nextExtraLifeScore (players ?w1 ! i)
               then modPlayer i (\<lambda>p. p\<lparr>lives := lives p + 1,
                                        nextExtraLifeScore := nextExtraLifeScore p + EXTRA_LIFE_SCORE\<rparr>) ?w1
               else ?w1)"
  have 1: "passKeeps w ?w1" using p by (intro passKeeps_modPlayer) simp_all
  have 2: "passKeeps ?w1 ?w2" by (simp add: passKeeps_modPlayer)
  have 3: "sameFlow ?w2 (addScore i points w)"
    by (simp add: addScore_def Let_def sameFlow_def)
  show ?thesis
    using passKeeps_sameFlow [OF passKeeps_trans [OF 1 2] 3] .
qed

lemma passKeeps_landOnBlock: "passKeeps w (landOnBlock i w)"
  by (simp add: landOnBlock_def Let_def passKeeps_modPlayer)

lemma passKeeps_landOnPlatform: "passKeeps w (fst (landOnPlatform i j (w, a, f)))"
  by (simp add: landOnPlatform_def Let_def passKeeps_modPlayer)

lemma passKeeps_hitEnemyAbove: "passKeeps w (hitEnemyAbove i p c k w)"
proof -
  have "passKeeps w (modEnemy k flip w)"
    by (rule sameFlow_passKeeps) simp
  moreover have "passKeeps (modEnemy k flip w) (addScore i 50 (modEnemy k flip w))"
    by (rule passKeeps_addScore) simp
  ultimately have "passKeeps w (addScore i 50 (modEnemy k flip w))"
    by (rule passKeeps_trans)
  then show ?thesis by (simp add: hitEnemyAbove_def Let_def)
qed

lemma passKeeps_hitPlatformFromBelow: "passKeeps w (hitPlatformFromBelow i j w)"
proof -
  have "passKeeps w (forEach len (hitEnemyAbove i p c) (modPlayer i f w))"
    if "\<And>q. isDead (f q) = isDead q" "\<And>q. score q \<le> score (f q)" for len p c f
  proof (rule forEach_invariant)
    show "passKeeps w (modPlayer i f w)" using that by (rule passKeeps_modPlayer)
    show "passKeeps w (hitEnemyAbove i p c k t)" if "passKeeps w t" for k t
      using that passKeeps_hitEnemyAbove by (rule passKeeps_trans)
  qed
  then show ?thesis by (simp add: hitPlatformFromBelow_def Let_def)
qed

lemma passKeeps_playerVsPlatform: "passKeeps w (fst (playerVsPlatform i j (w, a, f)))"
proof -
  obtain t b g where l: "landOnPlatform i j (w, a, f) = (t, b, g)"
    by (metis prod_cases3)
  have "passKeeps w t" using passKeeps_landOnPlatform [of w i j a f] l by simp
  then have "passKeeps w (hitPlatformFromBelow i j t)"
    using passKeeps_hitPlatformFromBelow by (rule passKeeps_trans)
  then show ?thesis by (simp add: playerVsPlatform_def l)
qed

lemma passKeeps_hitBlockFromBelow: "passKeeps w (hitBlockFromBelow i w)"
proof -
  have "passKeeps w (hit (modPlayer i f w))"
    if "\<And>q. isDead (f q) = isDead q" "\<And>q. score q \<le> score (f q)" for f
    using passKeeps_modPlayer [of f w i, OF that] sameFlow_hit by (rule passKeeps_sameFlow)
  then show ?thesis by (simp add: hitBlockFromBelow_def Let_def)
qed

lemma passKeeps_playerVsEnemy: "passKeeps w (playerVsEnemy i k w)"
proof -
  have "passKeeps w (addScore i 200 (spawnParticles 20 a b c (w\<lparr>enemies := es\<rparr>)))" for a b c es
  proof -
    have "sameFlow w (w\<lparr>enemies := es\<rparr>)" by (simp add: sameFlow_def)
    then have "sameFlow w (spawnParticles 20 a b c (w\<lparr>enemies := es\<rparr>))"
      using sameFlow_basic(3) by (rule sameFlow_trans)
    then show ?thesis
      by (rule passKeeps_trans [OF sameFlow_passKeeps]) (simp add: passKeeps_addScore)
  qed
  then show ?thesis by (simp add: playerVsEnemy_def Let_def passKeeps_die)
qed

lemma passKeeps_collidePlayer: "passKeeps w (collidePlayer i w)"
proof (cases "isDead (players w ! i)")
  case True
  then show ?thesis by (simp add: collidePlayer_def)
next
  case False
  let ?w1 = "landOnBlock i w"
  let ?s = "forEach (\<lambda>(t, a, f). length (platforms t)) (playerVsPlatform i)
              (?w1, Player.onGround (players ?w1 ! i), False)"
  have 1: "passKeeps w ?w1" by (rule passKeeps_landOnBlock)
  have 2: "passKeeps w (fst ?s)"
  proof (rule forEach_invariant [where P = "\<lambda>s. passKeeps w (fst s)"])
    show "passKeeps w (fst (?w1, Player.onGround (players ?w1 ! i), False))" using 1 by simp
    show "passKeeps w (fst (playerVsPlatform i j s))" if "passKeeps w (fst s)" for j s
    proof -
      obtain t a f where s: "s = (t, a, f)" by (metis prod_cases3)
      show ?thesis
        unfolding s using that passKeeps_playerVsPlatform [of t i j a f]
        by (simp add: s) (rule passKeeps_trans)
    qed
  qed
  let ?w3 = "modPlayer i (\<lambda>q. q\<lparr>Player.onGround := fst (snd ?s),
                                     onFrozenPlatform := snd (snd ?s)\<rparr>) (fst ?s)"
  have 3: "passKeeps w ?w3"
    by (rule passKeeps_trans [OF 2]) (rule passKeeps_modPlayer, simp_all)
  have 4: "passKeeps w (hitBlockFromBelow i ?w3)"
    by (rule passKeeps_trans [OF 3 passKeeps_hitBlockFromBelow])
  have 5: "passKeeps w (forEach (\<lambda>t. length (enemies t)) (playerVsEnemy i) (hitBlockFromBelow i ?w3))"
  proof (rule forEach_invariant)
    show "passKeeps w (hitBlockFromBelow i ?w3)" by (rule 4)
    show "passKeeps w (playerVsEnemy i k t)" if "passKeeps w t" for k t
      using that passKeeps_playerVsEnemy by (rule passKeeps_trans)
  qed
  have "collidePlayer i w =
     forEach (\<lambda>t. length (enemies t)) (playerVsEnemy i) (hitBlockFromBelow i ?w3)"
    using False by (simp add: collidePlayer_def Let_def split_beta)
  then show ?thesis using 5 by simp
qed

lemma passKeeps_handleCollisions: "passKeeps w (handleCollisions w)"
proof -
  let ?w1 = "forEach (\<lambda>t. length (players t)) collidePlayer w"
  have 1: "passKeeps w ?w1"
  proof (rule forEach_invariant)
    show "passKeeps w w" by simp
    show "passKeeps w (collidePlayer k t)" if "passKeeps w t" for k t
      using that passKeeps_collidePlayer by (rule passKeeps_trans)
  qed
  have "passKeeps w (fold (\<lambda>i t. fold (\<lambda>j. enemyVsEnemy i j) [Suc i..<length (enemies t)] t) xs ?w1)" for xs
  proof (rule fold_invariant)
    show "passKeeps w ?w1" by (rule 1)
    show "passKeeps w (fold (\<lambda>j. enemyVsEnemy x j) [Suc x..<length (enemies t)] t)"
      if "passKeeps w t" for x t
    proof (rule fold_invariant)
      show "passKeeps w t" by (rule that)
      show "passKeeps w (enemyVsEnemy x j u)" if "passKeeps w u" for j u
        using that sameFlow_enemyVsEnemy by (rule passKeeps_sameFlow)
    qed
  qed
  then show ?thesis by (simp add: handleCollisions_def Let_def)
qed

lemma Player_update_keeps [simp]:
  "isDead (Player_update ks p) = isDead p" "score (Player_update ks p) = score p"
  by (simp_all add: Player_update_def Let_def)

lemma passKeeps_moveEntities: "passKeeps w (moveEntities w)"
proof -
  let ?w1 = "w\<lparr>players := map (Player_update (keys w)) (players w)\<rparr>"
  let ?w2 = "forEach (\<lambda>t. length (enemies t)) update_enemy ?w1"
  have 1: "passKeeps w ?w1"
    by (simp add: passKeeps_def someoneAlive_map comp_def)
  have 2: "sameFlow ?w1 ?w2"
  proof (rule forEach_invariant)
    show "sameFlow ?w1 ?w1" by simp
    show "sameFlow ?w1 (update_enemy k t)" if "sameFlow ?w1 t" for k t
      using that sameFlow_update_enemy by (rule sameFlow_trans)
  qed
  have 3: "sameFlow ?w2 (moveEntities w)"
    by (simp add: moveEntities_def Let_def sameFlow_def)
  show ?thesis
    by (rule passKeeps_sameFlow [OF passKeeps_sameFlow [OF 1 2] 3])
qed

lemma constructors_players [simp]:
  "players (snd (BasicEnemy_new ex ey w)) = players w"
  "players (snd (FastEnemy_new ex ey w)) = players w"
  "players (snd (JumpingEnemy_new ex ey w)) = players w"
  "players (snd (IceBomberEnemy_new ex ey j w)) = players w"
  "players (snd (ToughEnemy_new ex ey w)) = players w"
  by (simp_all add: BasicEnemy_new_def FastEnemy_new_def JumpingEnemy_new_def
      IceBomberEnemy_new_def ToughEnemy_new_def split_beta Let_def)

lemma players_spawnEnemy [simp]: "players (spawnEnemy l w) = players w"
  by (simp add: spawnEnemy_def split_beta Let_def)

lemma players_setupLevel [simp]: "players (setupLevel n w) = players w"
proof -
  have f: "players (fold (\<lambda>i. spawnEnemy l) xs t) = players t" for l xs t
    by (induction xs arbitrary: t) simp_all
  show ?thesis by (simp add: setupLevel_def Let_def f)
qed

lemma passKeeps_pass: "passKeeps w (handleCollisions (moveEntities w))"
  using passKeeps_moveEntities passKeeps_handleCollisions by (rule passKeeps_trans)

text \<open>The tick, with the collision pass named.\<close>

lemma update_playing:
  "gameState w = playing \<Longrightarrow>
   update w =
     (let c = handleCollisions (moveEntities w);
          d = (if enemies c = [] \<and> someoneAlive c
               then c\<lparr>level := level c + 1, gameState := levelTransition,
                      levelTransitionTimer := LEVEL_TRANSITION_TIME\<rparr>
               else c)
      in d\<lparr>particles := filter (\<lambda>p. life p > 0) (map Particle_update (particles d))\<rparr>)"
  by (simp add: update_def Let_def someoneAlive_def)

lemma players_update: "length (players (update w)) = length (players w) \<and>
   (\<forall>i < length (players w). score (players w ! i) \<le> score (players (update w) ! i))"
proof (cases "gameState w = playing")
  case True
  have "passKeeps w (handleCollisions (moveEntities w))" by (rule passKeeps_pass)
  then show ?thesis
    by (simp add: update_playing [OF True] Let_def passKeeps_def)
next
  case False
  then have "players (update w) = players w"
    by (simp add: update_def Let_def)
  then show ?thesis by simp
qed

text \<open>A tick in the state \<^verbatim>\<open>playing\<close> with every player dead: nothing happens to the players or to the game flow.\<close>

lemma all_dead: "\<not> someoneAlive w \<longleftrightarrow> (\<forall>p \<in> set (players w). isDead p)"
  by (auto simp add: someoneAlive_def list_ex_iff)

lemma dead_moveEntities:
  assumes "\<not> someoneAlive w"
  shows "sameFlow w (moveEntities w)"
proof -
  let ?w1 = "w\<lparr>players := map (Player_update (keys w)) (players w)\<rparr>"
  let ?w2 = "forEach (\<lambda>t. length (enemies t)) update_enemy ?w1"
  have "map (Player_update (keys w)) (players w) = players w"
    using assms by (intro map_idI) (simp add: all_dead Player_update_def)
  then have 1: "sameFlow w ?w1"
    by (simp add: sameFlow_def)
  have 2: "sameFlow ?w1 ?w2"
  proof (rule forEach_invariant)
    show "sameFlow ?w1 ?w1" by simp
    show "sameFlow ?w1 (update_enemy k t)" if "sameFlow ?w1 t" for k t
      using that sameFlow_update_enemy by (rule sameFlow_trans)
  qed
  have 3: "sameFlow ?w2 (moveEntities w)"
    by (simp add: moveEntities_def Let_def sameFlow_def)
  show ?thesis
    by (rule sameFlow_trans [OF sameFlow_trans [OF 1 2] 3])
qed

lemma dead_handleCollisions:
  assumes "\<not> someoneAlive w"
  shows "sameFlow w (handleCollisions w)"
proof -
  let ?w1 = "forEach (\<lambda>t. length (players t)) collidePlayer w"
  have 1: "sameFlow w ?w1"
  proof (rule forEach_invariant_guarded)
    show "sameFlow w w" by simp
    show "sameFlow w (collidePlayer k t)" if "sameFlow w t" "k < length (players t)" for k t
    proof -
      have "players t = players w" using that(1) by (simp add: sameFlow_def)
      then have "isDead (players t ! k)"
        using assms that(2) by (simp add: all_dead)
      then have "collidePlayer k t = t" by (simp add: collidePlayer_def)
      then show ?thesis using that(1) by simp
    qed
  qed
  have "sameFlow w (fold (\<lambda>i t. fold (\<lambda>j. enemyVsEnemy i j) [Suc i..<length (enemies t)] t) xs ?w1)" for xs
  proof (rule fold_invariant)
    show "sameFlow w ?w1" by (rule 1)
    show "sameFlow w (fold (\<lambda>j. enemyVsEnemy x j) [Suc x..<length (enemies t)] t)"
      if "sameFlow w t" for x t
    proof (rule fold_invariant)
      show "sameFlow w t" by (rule that)
      show "sameFlow w (enemyVsEnemy x j u)" if "sameFlow w u" for j u
        using that sameFlow_enemyVsEnemy by (rule sameFlow_trans)
    qed
  qed
  then show ?thesis by (simp add: handleCollisions_def Let_def)
qed

lemma dead_tick:
  assumes "gameState w = playing" "\<not> someoneAlive w"
  shows "gameState (update w) = playing \<and> players (update w) = players w"
proof -
  let ?m = "moveEntities w"
  let ?c = "handleCollisions ?m"
  have m: "sameFlow w ?m" using assms(2) by (rule dead_moveEntities)
  then have "\<not> someoneAlive ?m" using assms(2) by (simp add: sameFlow_def someoneAlive_def)
  then have "sameFlow ?m ?c" by (rule dead_handleCollisions)
  with m have c: "sameFlow w ?c" by (rule sameFlow_trans)
  then have "\<not> someoneAlive ?c" using assms(2) by (simp add: sameFlow_def someoneAlive_def)
  then show ?thesis
    using c assms(1) by (simp add: update_playing [OF assms(1)] Let_def sameFlow_def)
qed

text \<open>
  The callback of a debounce timer that fires, with Enter held, after the game is over
  puts the match back into the state \<^verbatim>\<open>playing\<close> with every player dead, and the next
  tick leaves it there.
\<close>

lemma debounce_revives:
  assumes "gameState w = gameOver" "keys w ''enter''" "\<not> someoneAlive w"
  shows "gameState (debounce w) = playing \<and> \<not> someoneAlive (debounce w) \<and>
     gameState (update (debounce w)) = playing \<and> \<not> someoneAlive (update (debounce w))"
proof -
  have d: "gameState (debounce w) = playing" "\<not> someoneAlive (debounce w)"
    using assms by (simp_all add: debounce_def someoneAlive_def)
  from dead_tick [OF d] d(2) show ?thesis
    using d by (simp add: someoneAlive_def)
qed

text \<open>
  The level check at the end of a tick in the state \<^verbatim>\<open>playing\<close>: the state becomes
  \<^verbatim>\<open>levelTransition\<close> exactly when the pass leaves no enemy and a live player, and
  \<^verbatim>\<open>gameOver\<close> when the last live player dies in the tick.
\<close>

lemma level_check:
  assumes "gameState w = playing"
  shows "let c = handleCollisions (moveEntities w); w' = update w in
     (gameState w' = levelTransition \<longleftrightarrow> enemies c = [] \<and> someoneAlive c) \<and>
     (gameState w' = levelTransition \<longrightarrow>
        level w' = level w + 1 \<and> levelTransitionTimer w' = LEVEL_TRANSITION_TIME) \<and>
     (\<not> someoneAlive c \<longrightarrow> gameState w' \<noteq> levelTransition) \<and>
     (someoneAlive w \<and> \<not> someoneAlive c \<longrightarrow> gameState w' = gameOver)"
proof -
  let ?c = "handleCollisions (moveEntities w)"
  have k: "passKeeps w ?c" by (rule passKeeps_pass)
  then have s: "gameState ?c = playing \<or> gameState ?c = gameOver"
    and l: "level ?c = level w"
    and a: "someoneAlive w \<longrightarrow> someoneAlive ?c \<or> gameState ?c = gameOver"
    using assms by (simp_all add: passKeeps_def)
  show ?thesis
    using s l a by (auto simp add: update_playing [OF assms] Let_def)
qed

text \<open>
  The simulation on its own never leaves a match in the state \<^verbatim>\<open>playing\<close> without a
  live player: on the states reached from \<^verbatim>\<open>startGame\<close> by its operations, a tick that
  ends with every player dead ends in \<^verbatim>\<open>gameOver\<close>.
\<close>

lemma inPlay_passKeeps: "inPlay w \<Longrightarrow> passKeeps w w' \<Longrightarrow> inPlay w'"
  by (auto simp add: inPlay_def passKeeps_def)

lemma inPlay_update: "inPlay w \<Longrightarrow> inPlay (update w)"
proof -
  assume i: "inPlay w"
  consider (p) "gameState w = playing" | (t) "gameState w = levelTransition"
    | (o) "gameState w \<noteq> playing" "gameState w \<noteq> levelTransition" by blast
  then show ?thesis
  proof cases
    case p
    have k: "passKeeps w (handleCollisions (moveEntities w))" by (rule passKeeps_pass)
    have "inPlay (handleCollisions (moveEntities w))" using i k by (rule inPlay_passKeeps)
    then show ?thesis
      by (simp add: update_playing [OF p] Let_def inPlay_def someoneAlive_def)
  next
    case t
    then have "someoneAlive w" using i by (simp add: inPlay_def)
    then show ?thesis using t
      by (simp add: update_def Let_def inPlay_def someoneAlive_def)
  next
    case o
    then show ?thesis using i
      by (simp add: update_def Let_def inPlay_def someoneAlive_def)
  qed
qed

lemma inPlay_startGame: "inPlay (startGame n w)"
  by (simp add: startGame_def Let_def inPlay_def someoneAlive_def Player_new_def)

lemma simulation_keeps_someone_alive:
  "simStep\<^sup>*\<^sup>* (startGame n w0) w \<Longrightarrow> inPlay w"
proof (induction rule: rtranclp_induct)
  case base
  then show ?case by (rule inPlay_startGame)
next
  case (step y z)
  from step.hyps(2) show ?case
  proof cases
    case collisions
    then show ?thesis using step.IH passKeeps_handleCollisions inPlay_passKeeps by blast
  next
    case (award i points)
    then show ?thesis using step.IH passKeeps_addScore inPlay_passKeeps by blast
  next
    case (death i)
    then show ?thesis using step.IH passKeeps_die inPlay_passKeeps by blast
  next
    case levelSetup
    then show ?thesis using step.IH by (simp add: inPlay_def someoneAlive_def)
  next
    case tick
    then show ?thesis using step.IH inPlay_update by blast
  qed
qed

lemma game_over_in_simulation:
  assumes "simStep\<^sup>*\<^sup>* (startGame n w0) w" "gameState w = playing"
    "\<not> someoneAlive (handleCollisions (moveEntities w))"
  shows "gameState (update w) = gameOver"
proof -
  have "someoneAlive w"
    using simulation_keeps_someone_alive [OF assms(1)] assms(2) by (simp add: inPlay_def)
  then show ?thesis
    using level_check [OF assms(2)] assms(3) by (simp add: Let_def)
qed

section \<open>The sample states through the collision pass\<close>

lemma addScore_frame [simp]:
  "enemies (addScore i n w) = enemies w"
  "platforms (addScore i n w) = platforms w"
  "particles (addScore i n w) = particles w"
  "explosiveBlock (addScore i n w) = explosiveBlock w"
  "gameState (addScore i n w) = gameState w"
  by (simp_all add: addScore_def Let_def)

lemma addScore_players:
  "i < length (players w) \<Longrightarrow>
   players (addScore i n w) = (players w)[i := 
      (if score (players w ! i) + n \<ge> nextExtraLifeScore (players w ! i)
       then (players w ! i)\<lparr>score := score (players w ! i) + n, lives := lives (players w ! i) + 1,
               nextExtraLifeScore := nextExtraLifeScore (players w ! i) + EXTRA_LIFE_SCORE\<rparr>
       else (players w ! i)\<lparr>score := score (players w ! i) + n\<rparr>)]"
  by (simp add: addScore_def Let_def)

lemma die_frame [simp]:
  "enemies (die i w) = enemies w"
  "platforms (die i w) = platforms w"
  "explosiveBlock (die i w) = explosiveBlock w"
  by (simp_all add: die_def checkGameOver_def Let_def)

lemma playerVsEnemy_flipped:
  assumes "i < length (players w)" "touches (players w ! i) (enemies w ! k)"
    "isFlipped (enemies w ! k)"
  shows "enemies (playerVsEnemy i k w) = take k (enemies w) @ drop (Suc k) (enemies w) \<and>
     score (players (playerVsEnemy i k w) ! i) = score (players w ! i) + 200 \<and>
     (\<exists>ps. particles (playerVsEnemy i k w) = particles w @ ps \<and> length ps = 20 \<and>
        (\<forall>p \<in> set ps. Particle.x p = Enemy.x (enemies w ! k) \<and> Particle.y p = Enemy.y (enemies w ! k) \<and>
                       Particle.sprite p = Enemy.sprite (enemies w ! k)))"
proof -
  let ?e = "enemies w ! k"
  let ?t = "spawnParticles 20 (Enemy.x ?e) (Enemy.y ?e) (Enemy.sprite ?e)
              (w\<lparr>enemies := take k (enemies w) @ drop (Suc k) (enemies w)\<rparr>)"
  have eq: "playerVsEnemy i k w = addScore i 200 ?t"
    using assms(2,3) by (simp add: playerVsEnemy_def touches_def Let_def)
  obtain ps where ps: "particles ?t = particles w @ ps" "length ps = 20"
    "\<forall>p \<in> set ps. Particle.x p = Enemy.x ?e \<and> Particle.y p = Enemy.y ?e \<and> Particle.sprite p = Enemy.sprite ?e"
    using spawnParticles_particles [of 20 "Enemy.x ?e" "Enemy.y ?e" "Enemy.sprite ?e"
        "w\<lparr>enemies := take k (enemies w) @ drop (Suc k) (enemies w)\<rparr>"] by auto
  have "score (players (addScore i 200 ?t) ! i) = score (players w ! i) + 200"
    using assms(1) by (simp add: addScore_players)
  then show ?thesis
    unfolding eq using ps by simp
qed

text \<open>A player that touches no platform passes the platform loop unchanged.\<close>

lemma landOnPlatform_miss:
  "\<not> landsOn (players w ! i) (platforms w ! j) \<Longrightarrow> landOnPlatform i j (w, a, f) = (w, a, f)"
proof -
  have "landOnPlatform i j (w, a, f) =
     (if landsOn (players w ! i) (platforms w ! j)
      then (modPlayer i (\<lambda>q. q\<lparr>Player.y := Platform.y (platforms w ! j) - Player.height q,
                                Player.vy := 0, Player.onGround := True,
                                Player.x := Player.x q + Platform.vx (platforms w ! j)\<rparr>) w,
            True, f \<or> isFrozen (platforms w ! j))
      else (w, a, f))"
    by (simp add: landOnPlatform_def landsOn_def Let_def)
  then show "\<not> landsOn (players w ! i) (platforms w ! j) \<Longrightarrow> ?thesis" by simp
qed

lemma hitPlatformFromBelow_miss:
  "\<not> bumps (players w ! i) (platforms w ! j) \<Longrightarrow> hitPlatformFromBelow i j w = w"
proof -
  have "hitPlatformFromBelow i j w =
     (if bumps (players w ! i) (platforms w ! j)
      then
        (let t = modPlayer i (\<lambda>q. q\<lparr>Player.y := Platform.y (platforms w ! j)
                                          + Platform.height (platforms w ! j),
                                      Player.vy := 0\<rparr>) w
         in forEach (\<lambda>t. length (enemies t))
              (hitEnemyAbove i (platforms w ! j)
                 (Player.x (players t ! i) + Player.width (players t ! i) / 2)) t)
      else w)"
    by (simp add: hitPlatformFromBelow_def bumps_def Let_def)
  then show "\<not> bumps (players w ! i) (platforms w ! j) \<Longrightarrow> ?thesis" by simp
qed

lemma playerVsPlatform_miss:
  "\<not> landsOn (players w ! i) (platforms w ! j) \<Longrightarrow> \<not> bumps (players w ! i) (platforms w ! j) \<Longrightarrow>
   playerVsPlatform i j (w, a, f) = (w, a, f)"
  by (simp add: playerVsPlatform_def landOnPlatform_miss hitPlatformFromBelow_miss)

lemma platforms_miss:
  assumes "\<forall>p \<in> set (platforms w). \<not> landsOn (players w ! i) p \<and> \<not> bumps (players w ! i) p"
  shows "forEach (\<lambda>(t, a, f). length (platforms t)) (playerVsPlatform i) (w, a, f) = (w, a, f)"
proof (rule forEach_invariant_guarded [where P = "\<lambda>s. s = (w, a, f)"])
  show "(w, a, f) = (w, a, f)" by simp
  show "playerVsPlatform i k t = (w, a, f)"
    if "t = (w, a, f)" "k < (case t of (t, a, f) \<Rightarrow> length (platforms t))" for k t
    using that assms by (simp add: playerVsPlatform_miss)
qed

lemma forEach_enemies:
  "forEach (\<lambda>t. length (enemies t)) body w =
     fold (\<lambda>k t. if k < length (enemies t) then body k t else t) [0..<length (enemies w)] w"
  by (simp add: forEach_def)

lemma forEach_players:
  "forEach (\<lambda>t. length (players t)) body w =
     fold (\<lambda>k t. if k < length (players t) then body k t else t) [0..<length (players w)] w"
  by (simp add: forEach_def)

lemmas pass_steps =
  handleCollisions_def forEach_players forEach_enemies collidePlayer_def landOnBlock_def
  platforms_miss landsOn_def bumps_def hitBlockFromBelow_def playerVsEnemy_def
  enemyVsEnemy_def modPlayer_def modEnemy_def Platform_new_def ExplosiveBlock_new_def

lemmas move_steps =
  moveEntities_def forEach_enemies update_enemy_def BasicEnemy_update_def FastEnemy_update_def
  Enemy_update_def Enemy_land_def walk_def modEnemy_def Player_update_def Platform_update_def
  ExplosiveBlock_update_def Platform_new_def ExplosiveBlock_new_def

lemma falling_pass: "handleCollisions fallingGame = fallingGame"
  by (simp add: fallingGame_def levelOne_eq player1_eq invader_def spentBlock_def pass_steps
      Let_def cong: let_weak_cong prod.case_cong_weak)

lemma duel_pass_unfold:
  "handleCollisions duelGame =
     addScore 0 200 (spawnParticles 20 400 620 GHOST (duelGame\<lparr>enemies := [flippedGhost 420 640]\<rparr>))"
  by (simp add: duelGame_def levelOne_eq player1_eq flippedGhost_eq pass_steps Let_def cong: let_weak_cong prod.case_cong_weak)

lemma duel_pass:
  "enemies (handleCollisions duelGame) = [flippedGhost 420 640] \<and>
   score (players (handleCollisions duelGame) ! 0) = 200 \<and>
   players (handleCollisions duelGame) = [player1\<lparr>score := 200\<rparr>] \<and>
   length (particles (handleCollisions duelGame)) = 20"
proof -
  let ?t = "spawnParticles 20 400 620 GHOST (duelGame\<lparr>enemies := [flippedGhost 420 640]\<rparr>)"
  obtain ps where "particles ?t = particles (duelGame\<lparr>enemies := [flippedGhost 420 640]\<rparr>) @ ps"
    "length ps = 20"
    using spawnParticles_particles by blast
  then have n: "length (particles ?t) = 20" by (simp add: duelGame_def levelOne_fields)
  have pl: "players duelGame = [player1]" by (simp add: duelGame_def levelOne_fields)
  show ?thesis
    unfolding duel_pass_unfold
    by (simp add: n addScore_players pl) (simp add: player1_eq)
qed

text \<open>The three presses of Enter, the first timer, and the tick in which the player dies.\<close>

lemma lastStand_fields:
  "gameState lastStand = playing" "keys lastStand = (\<lambda>k. False)"
  "players lastStand = [player1\<lparr>lives := 1\<rparr>]"
  by (simp_all add: lastStand_def levelOne_eq)

lemma pausedTwice_eq:
  "pausedTwice = \<lparr>game = lastStand\<lparr>keys := heldKeys, gameState := paused\<rparr>, timers = 2\<rparr>"
  by (simp add: pausedTwice_def keydown_def lastStand_fields heldKeys_def Let_def)

lemma resumed_eq:
  "resumed = \<lparr>game = lastStand\<lparr>keys := heldKeys\<rparr>, timers = 1\<rparr>"
  by (simp add: resumed_def pausedTwice_eq timeout_def debounce_def heldKeys_def)
    (simp add: lastStand_def levelOne_eq)

lemma held_move:
  "moveEntities (lastStand\<lparr>keys := heldKeys\<rparr>) =
     lastStand\<lparr>keys := heldKeys,
               players := [player1\<lparr>lives := 1, Player.y := 630.6, Player.vy := 0.6\<rparr>],
               enemies := [(fst (FastEnemy_new 373 644 levelOne))
                             \<lparr>Enemy.onGround := True, Enemy.x := 375.7\<rparr>]\<rparr>"
  by (simp add: lastStand_def levelOne_eq player1_eq FastEnemy_new_def Enemy_new_def Math_random_def
       heldKeys_def move_steps Let_def cong: let_weak_cong prod.case_cong_weak)

lemma held_pass:
  "map isDead (players (handleCollisions (moveEntities (lastStand\<lparr>keys := heldKeys\<rparr>)))) = [True] \<and>
   map lives (players (handleCollisions (moveEntities (lastStand\<lparr>keys := heldKeys\<rparr>)))) = [0] \<and>
   length (enemies (handleCollisions (moveEntities (lastStand\<lparr>keys := heldKeys\<rparr>)))) = 1 \<and>
   gameState (handleCollisions (moveEntities (lastStand\<lparr>keys := heldKeys\<rparr>))) = gameOver \<and>
   keys (handleCollisions (moveEntities (lastStand\<lparr>keys := heldKeys\<rparr>))) = heldKeys"
  unfolding held_move
  by (simp add: lastStand_def levelOne_eq player1_eq FastEnemy_new_def Enemy_new_def Math_random_def
      pass_steps die_def checkGameOver_def Let_def cong: let_weak_cong prod.case_cong_weak)

lemma finished_fields:
  "gameState (game finished) = gameOver" "map isDead (players (game finished)) = [True]"
  "keys (game finished) = heldKeys" "timers finished = 1"
proof -
  let ?h = "lastStand\<lparr>keys := heldKeys\<rparr>"
  have p: "gameState ?h = playing" by (simp add: lastStand_fields)
  let ?c = "handleCollisions (moveEntities ?h)"
  from held_pass have hp: "map isDead (players ?c) = [True]" "length (enemies ?c) = 1"
    "gameState ?c = gameOver" "keys ?c = heldKeys"
    by simp_all
  have ne: "enemies ?c \<noteq> []" using hp(2) by auto
  have u: "update ?h = ?c\<lparr>particles := filter (\<lambda>p. life p > 0) (map Particle_update (particles ?c))\<rparr>"
    by (simp add: update_playing [OF p] Let_def ne)
  have f: "game finished = update ?h" "timers finished = 1"
    by (simp_all add: finished_def resumed_eq gameLoop_def)
  show "gameState (game finished) = gameOver" "map isDead (players (game finished)) = [True]"
    "keys (game finished) = heldKeys" "timers finished = 1"
    unfolding f u by (simp_all add: hp)
qed

section \<open>Flipping and recovering\<close>

text \<open>
  \<^verbatim>\<open>update()\<close> of a tough enemy keeps its \<^verbatim>\<open>hitsLeft\<close>, counts the flip timer down
  while the enemy is flipped, and ends the flip when the timer has run out.
\<close>

lemma fold_Enemy_land_keeps:
  "kind (fold Enemy_land ps e) = kind e"
  "isFlipped (fold Enemy_land ps e) = isFlipped e"
  "flipTimer (fold Enemy_land ps e) = flipTimer e"
  by (induction ps arbitrary: e; simp add: Enemy_land_def Let_def)+

lemma update_enemy_tough:
  assumes "k < length (enemies w)" "kind (enemies w ! k) = ToughEnemy h"
  shows "length (enemies (update_enemy k w)) = length (enemies w) \<and>
     kind (enemies (update_enemy k w) ! k) = ToughEnemy h \<and>
     (isFlipped (enemies (update_enemy k w) ! k) \<longleftrightarrow>
        isFlipped (enemies w ! k) \<and> flipTimer (enemies w ! k) - 1000 / 60 > 0) \<and>
     (isFlipped (enemies w ! k) \<longrightarrow>
        flipTimer (enemies (update_enemy k w) ! k) = flipTimer (enemies w ! k) - 1000 / 60)"
  using assms
  by (simp add: update_enemy_def ToughEnemy_update_def Enemy_update_def modEnemy_def walk_def
      fold_Enemy_land_keeps split_beta Let_def)

lemma tough_ticks:
  assumes "k < length (enemies w)" "kind (enemies w ! k) = ToughEnemy h"
  shows "k < length (enemies ((update_enemy k ^^ n) w)) \<and>
     kind (enemies ((update_enemy k ^^ n) w) ! k) = ToughEnemy h \<and>
     (isFlipped (enemies ((update_enemy k ^^ n) w) ! k) \<longrightarrow>
        flipTimer (enemies ((update_enemy k ^^ n) w) ! k) = flipTimer (enemies w ! k) - real n * (1000 / 60) \<and>
        (0 < n \<longrightarrow> 0 < flipTimer (enemies ((update_enemy k ^^ n) w) ! k)))"
proof (induction n)
  case 0
  then show ?case using assms by simp
next
  case (Suc n)
  let ?t = "(update_enemy k ^^ n) w"
  from Suc have l: "k < length (enemies ?t)" and kd: "kind (enemies ?t ! k) = ToughEnemy h"
    and f: "isFlipped (enemies ?t ! k) \<longrightarrow>
       flipTimer (enemies ?t ! k) = flipTimer (enemies w ! k) - real n * (1000 / 60)"
    by simp_all
  from update_enemy_tough [OF l kd] f l show ?case
    by (auto simp add: field_simps)
qed

lemma flipped_stays: "isFlipped e \<Longrightarrow> isFlipped (flip e)"
  by (cases "kind e")
    (simp_all add: flip_def Enemy_flip_def IceBomberEnemy_flip_def ToughEnemy_flip_def)

lemma tough_flip_once:
  "kind e = ToughEnemy h \<Longrightarrow> \<not> isFlipped e \<Longrightarrow>
   kind (flip e) = ToughEnemy (h - 1) \<and> (isFlipped (flip e) \<longleftrightarrow> h \<le> 1)"
  by (simp add: flip_def ToughEnemy_flip_def Enemy_flip_def Let_def)

lemma tough_triggers:
  assumes "kind e = ToughEnemy h" "\<not> isFlipped e"
  shows "if 0 < n \<and> h \<le> int n then isFlipped ((flip ^^ n) e)
    else \<not> isFlipped ((flip ^^ n) e) \<and> kind ((flip ^^ n) e) = ToughEnemy (h - int n)"
proof (induction n)
  case 0
  then show ?case using assms by simp
next
  case (Suc n)
  define u where "u = (flip ^^ n) e"
  have s: "(flip ^^ Suc n) e = flip u" by (simp add: u_def)
  show ?case
  proof (cases "0 < n \<and> h \<le> int n")
    case True
    then have "isFlipped u" using Suc by (simp add: u_def)
    then have "isFlipped (flip u)" by (rule flipped_stays)
    then show ?thesis using True unfolding s by simp
  next
    case False
    then have "kind u = ToughEnemy (h - int n)" "\<not> isFlipped u"
      using Suc by (simp_all add: u_def)
    from tough_flip_once [OF this] False show ?thesis
      unfolding s by (auto simp add: algebra_simps)
  qed
qed

lemma tough_stays_tough:
  "kind e = ToughEnemy h \<Longrightarrow> \<exists>h'. kind ((flip ^^ n) e) = ToughEnemy h'"
proof (induction n)
  case 0
  then show ?case by simp
next
  case (Suc n)
  define u where "u = (flip ^^ n) e"
  from Suc obtain a where "kind u = ToughEnemy a" unfolding u_def by blast
  then have "\<exists>h'. kind (flip u) = ToughEnemy h'"
    by (simp add: flip_def ToughEnemy_flip_def Enemy_flip_def Let_def)
  then show ?case by (simp add: u_def)
qed

lemma ogre_eq:
  "ogre = \<lparr>Enemy.x = 150, y = 60, width = 40, height = 40, vx = 1.05, vy = 0, sprite = OGRE,
       isFlipped = False, flipTimer = 0, onGround = False, hitAnimationTimer = 0,
       kind = ToughEnemy 2\<rparr>"
  by (simp add: ogre_def ToughEnemy_new_def Enemy_new_def Math_random_def levelOne_eq)

lemma ogre_flipped:
  "flip (flip ogre) = \<lparr>Enemy.x = 150, y = 60, width = 40, height = 40, vx = 1.05, vy = - 5, sprite = GOBLIN,
       isFlipped = True, flipTimer = 5000, onGround = False, hitAnimationTimer = 300,
       kind = ToughEnemy 0\<rparr>"
  by (simp add: ogre_eq flip_def ToughEnemy_flip_def Enemy_flip_def Let_def)

section \<open>The claims\<close>

text \<open>
  C10. For a player whose \<^verbatim>\<open>isDead\<close> flag is already set, \<^verbatim>\<open>die()\<close> does nothing at
  all: the whole state after the call is the state before it, so the player's lives,
  score, position, velocity and flags, the particles and the game-flow state are unchanged.
\<close>

theorem die_dead_noop:
  "i < length (players w) \<Longrightarrow> isDead (players w ! i) \<Longrightarrow> die i w = w"
  by (simp add: die_def)

theorem die_dead_noop_witness:
  "0 < length (players graveGame) \<and> isDead (players graveGame ! 0) \<and> die 0 graveGame = graveGame"
  using die_dead_noop [of 0 graveGame] by (simp add: graveGame_def)

text \<open>
  C2. One call of \<^verbatim>\<open>addScore(points)\<close> adds the points and then compares once: when
  the new score has reached \<^verbatim>\<open>nextExtraLifeScore\<close> the player gets exactly one life
  and the threshold moves up by exactly one \<^verbatim>\<open>EXTRA_LIFE_SCORE\<close>; otherwise lives and
  threshold stay as they are. So no call grants more than one life, however many
  multiples of \<^verbatim>\<open>EXTRA_LIFE_SCORE\<close> the increment crosses (the witness crosses two).
\<close>

theorem addScore_one_life:
  assumes "i < length (players w)"
  shows "let p = players w ! i; p' = players (addScore i points w) ! i in
           score p' = score p + points \<and>
           (if score p + points \<ge> nextExtraLifeScore p
            then lives p' = lives p + 1 \<and>
                 nextExtraLifeScore p' = nextExtraLifeScore p + EXTRA_LIFE_SCORE
            else lives p' = lives p \<and> nextExtraLifeScore p' = nextExtraLifeScore p)"
  using assms by (simp add: addScore_def Let_def)

theorem addScore_one_life_witness:
  "0 < length (players levelOne) \<and>
   score (players levelOne ! 0) = 0 \<and> lives (players levelOne ! 0) = 3 \<and>
   nextExtraLifeScore (players levelOne ! 0) = 20000 \<and>
   score (players (addScore 0 45000 levelOne) ! 0) = 45000 \<and>
   lives (players (addScore 0 45000 levelOne) ! 0) = 4 \<and>
   nextExtraLifeScore (players (addScore 0 45000 levelOne) ! 0) = 40000"
  using addScore_one_life [of 0 levelOne 45000]
  by (simp add: levelOne_fields player1_eq Let_def)

text \<open>
  C7, as amended. A Basic, Fast, Jumping or Tough enemy that is already flipped is left
  exactly as it is by \<^verbatim>\<open>flip()\<close>, flip timer included, and for every enemy that is no
  ToughEnemy a second \<^verbatim>\<open>flip()\<close> changes nothing more: \<open>flip (flip e) = flip e\<close>. An
  IceBomberEnemy is never flipped by \<^verbatim>\<open>flip()\<close>: the call leaves \<^verbatim>\<open>isFlipped\<close> and the
  flip timer alone and caps the detonation timer at 100, so it changes the bomber exactly
  when that timer was above 100. A ToughEnemy that is not flipped loses one of its
  \<^verbatim>\<open>hitsLeft\<close> with every trigger, and with \<^verbatim>\<open>hitsLeft = h\<close> it is flipped after \<open>n\<close>
  triggers exactly when \<open>n \<ge> 1\<close> and \<open>n \<ge> h\<close>: two triggers for one as built
  (\<open>h = 2\<close>), one as soon as \<open>h \<le> 1\<close>. Its \<^verbatim>\<open>update()\<close> never restores \<^verbatim>\<open>hitsLeft\<close>.
\<close>

theorem flip_again:
  "((\<forall>h. kind e \<noteq> ToughEnemy h) \<longrightarrow> flip (flip e) = flip e) \<and>
   (isFlipped e \<and> (\<forall>t p. kind e \<noteq> IceBomberEnemy t p) \<longrightarrow> flip e = e) \<and>
   (\<forall>t p. kind e = IceBomberEnemy t p \<longrightarrow>
      flipTimer (flip e) = flipTimer e \<and> isFlipped (flip e) = isFlipped e \<and>
      flip e = e\<lparr>kind := IceBomberEnemy (min t 100) p\<rparr> \<and> (flip e = e \<longleftrightarrow> t \<le> 100)) \<and>
   (\<forall>h. kind e = ToughEnemy h \<and> \<not> isFlipped e \<longrightarrow>
      kind (flip e) = ToughEnemy (h - 1) \<and>
      (\<forall>n. (isFlipped ((flip ^^ n) e) \<longleftrightarrow> 0 < n \<and> h \<le> int n) \<and>
           (isFlipped ((flip ^^ n) e) \<longrightarrow> flip ((flip ^^ n) e) = (flip ^^ n) e))) \<and>
   (\<forall>h. k < length (enemies w) \<and> kind (enemies w ! k) = ToughEnemy h \<longrightarrow>
      kind (enemies (update_enemy k w) ! k) = ToughEnemy h)"
proof (intro conjI)
  show "(\<forall>h. kind e \<noteq> ToughEnemy h) \<longrightarrow> flip (flip e) = flip e"
    by (cases "kind e")
      (auto simp add: flip_def Enemy_flip_def IceBomberEnemy_flip_def Let_def)
  show "isFlipped e \<and> (\<forall>t p. kind e \<noteq> IceBomberEnemy t p) \<longrightarrow> flip e = e"
    by (cases "kind e")
      (auto simp add: flip_def Enemy_flip_def ToughEnemy_flip_def Let_def)
  show "\<forall>t p. kind e = IceBomberEnemy t p \<longrightarrow>
      flipTimer (flip e) = flipTimer e \<and> isFlipped (flip e) = isFlipped e \<and>
      flip e = e\<lparr>kind := IceBomberEnemy (min t 100) p\<rparr> \<and> (flip e = e \<longleftrightarrow> t \<le> 100)"
  proof (intro allI impI)
    fix t p
    assume b: "kind e = IceBomberEnemy t p"
    have 1: "flip e = e\<lparr>kind := IceBomberEnemy (min t 100) p\<rparr>"
      using b by (simp add: flip_def IceBomberEnemy_flip_def)
    have "flip e = e \<longleftrightarrow> kind (flip e) = kind e"
      unfolding 1 by (metis Enemy.surjective Enemy.update_convs(12) Enemy.select_convs(12))
    also have "\<dots> \<longleftrightarrow> t \<le> 100"
      unfolding 1 using b by (simp add: min_def)
    finally show "flipTimer (flip e) = flipTimer e \<and> isFlipped (flip e) = isFlipped e \<and>
      flip e = e\<lparr>kind := IceBomberEnemy (min t 100) p\<rparr> \<and> (flip e = e \<longleftrightarrow> t \<le> 100)"
      using 1 by simp
  qed
  show "\<forall>h. kind e = ToughEnemy h \<and> \<not> isFlipped e \<longrightarrow>
      kind (flip e) = ToughEnemy (h - 1) \<and>
      (\<forall>n. (isFlipped ((flip ^^ n) e) \<longleftrightarrow> 0 < n \<and> h \<le> int n) \<and>
           (isFlipped ((flip ^^ n) e) \<longrightarrow> flip ((flip ^^ n) e) = (flip ^^ n) e))"
  proof (intro allI impI conjI)
    fix h n
    assume t: "kind e = ToughEnemy h \<and> \<not> isFlipped e"
    then show "kind (flip e) = ToughEnemy (h - 1)"
      by (simp add: flip_def ToughEnemy_flip_def Enemy_flip_def Let_def)
    show "isFlipped ((flip ^^ n) e) \<longleftrightarrow> 0 < n \<and> h \<le> int n"
      using tough_triggers [of e h n] t by (simp split: if_splits)
    assume f: "isFlipped ((flip ^^ n) e)"
    obtain a where "kind ((flip ^^ n) e) = ToughEnemy a"
      using tough_stays_tough t by blast
    then show "flip ((flip ^^ n) e) = (flip ^^ n) e"
      using f by (simp add: flip_def ToughEnemy_flip_def)
  qed
  show "\<forall>h. k < length (enemies w) \<and> kind (enemies w ! k) = ToughEnemy h \<longrightarrow>
      kind (enemies (update_enemy k w) ! k) = ToughEnemy h"
    using update_enemy_tough by blast
qed

theorem flip_again_witness:
  "isFlipped (flippedGhost 150 60) \<and> kind (flippedGhost 150 60) = FastEnemy \<and>
   flipTimer (flippedGhost 150 60) = 5000 \<and>
   flip (flippedGhost 150 60) = flippedGhost 150 60 \<and>
   kind (enemies raidGame ! 0) = IceBomberEnemy 3000 (Some 3) \<and>
   \<not> isFlipped (flip (enemies raidGame ! 0)) \<and>
   kind (flip (enemies raidGame ! 0)) = IceBomberEnemy 100 (Some 3) \<and>
   flip (enemies raidGame ! 0) \<noteq> enemies raidGame ! 0 \<and>
   kind ogre = ToughEnemy 2 \<and> \<not> isFlipped ogre \<and> kind (flip ogre) = ToughEnemy 1 \<and>
   \<not> isFlipped (flip ogre) \<and> isFlipped (flip (flip ogre)) \<and>
   flip (flip (flip ogre)) = flip (flip ogre)"
proof -
  have f: "isFlipped (flippedGhost 150 60) \<and> kind (flippedGhost 150 60) = FastEnemy \<and>
      flipTimer (flippedGhost 150 60) = 5000"
    by (simp add: flippedGhost_eq)
  have g: "flip (flippedGhost 150 60) = flippedGhost 150 60"
    by (rule flip_again [of "flippedGhost 150 60", THEN conjunct2, THEN conjunct1, rule_format])
      (simp add: f)
  let ?b = "enemies raidGame ! 0"
  have b: "kind ?b = IceBomberEnemy 3000 (Some 3)" "\<not> isFlipped ?b"
    by (simp_all add: raidGame_enemies)
  note bomber = flip_again [of ?b, THEN conjunct2, THEN conjunct2, THEN conjunct1, rule_format, OF b(1)]
  have b1: "\<not> isFlipped (flip ?b)"
    using bomber b(2) by simp
  have b2: "kind (flip ?b) = IceBomberEnemy 100 (Some 3)"
  proof -
    have "flip ?b = ?b\<lparr>kind := IceBomberEnemy (min 3000 100) (Some 3)\<rparr>"
      using bomber by (elim conjE)
    then have "kind (flip ?b) = IceBomberEnemy (min 3000 100) (Some 3)"
      by simp
    then show ?thesis by simp
  qed
  have b3: "flip ?b \<noteq> ?b"
  proof -
    have "flip ?b = ?b \<longleftrightarrow> (3000::real) \<le> 100"
      using bomber by (elim conjE)
    then show ?thesis by simp
  qed
  have o: "kind ogre = ToughEnemy 2 \<and> \<not> isFlipped ogre" by (simp add: ogre_eq)
  note tough = flip_again [of ogre, THEN conjunct2, THEN conjunct2, THEN conjunct2, THEN conjunct1,
      rule_format, OF o]
  have t0: "kind (flip ogre) = ToughEnemy 1"
    using tough [THEN conjunct1] by simp
  have t1: "\<not> isFlipped (flip ogre)"
    using tough [THEN conjunct2, rule_format, of 1, THEN conjunct1] by simp
  have t2: "isFlipped (flip (flip ogre))"
    using tough [THEN conjunct2, rule_format, of 2, THEN conjunct1] by (simp add: numeral_2_eq_2)
  have t3: "flip (flip (flip ogre)) = flip (flip ogre)"
    using tough [THEN conjunct2, rule_format, of 2, THEN conjunct2] t2
    by (simp add: numeral_2_eq_2)
  show ?thesis
    by (intro conjI) (use f g b b1 b2 b3 o t0 t1 t2 t3 in \<open>simp_all only: simp_thms\<close>)
qed

text \<open>
  The claim as stated fails on a tough enemy that has recovered from a flip: built with
  two hits left, it is flipped by its second trigger; six seconds of \<^verbatim>\<open>update()\<close>
  later the flip has worn off and \<^verbatim>\<open>hitsLeft\<close> is still 0, and a single trigger flips
  it again.
\<close>

theorem recovered_tough_counterexample:
  "kind ogre = ToughEnemy 2 \<and> \<not> isFlipped ogre \<and>
   \<not> isFlipped (flip ogre) \<and> isFlipped (flip (flip ogre)) \<and>
   \<not> isFlipped recovered \<and> kind recovered = ToughEnemy 0 \<and>
   isFlipped (flip recovered)"
proof -
  have l: "0 < length (enemies ogreGame)" "kind (enemies ogreGame ! 0) = ToughEnemy 0"
    "flipTimer (enemies ogreGame ! 0) = 5000"
    by (simp_all add: ogreGame_def ogre_flipped)
  from tough_ticks [OF l(1,2), of 360]
  have r: "\<not> isFlipped recovered" "kind recovered = ToughEnemy 0"
    by (auto simp add: recovered_def l(3))
  then have "isFlipped (flip recovered)"
    by (simp add: flip_def ToughEnemy_flip_def Enemy_flip_def Let_def)
  moreover have "kind ogre = ToughEnemy 2 \<and> \<not> isFlipped ogre \<and>
     \<not> isFlipped (flip ogre) \<and> isFlipped (flip (flip ogre))"
    by (simp add: ogre_flipped) (simp add: ogre_eq flip_def ToughEnemy_flip_def Let_def)
  ultimately show ?thesis using r by simp
qed

text \<open>
  C3, as amended. When \<^verbatim>\<open>hit()\<close> is called with \<^verbatim>\<open>usesLeft > 0\<close> and
  \<^verbatim>\<open>cooldown <= 0\<close>, it takes one use, sets the cooldown to 500, lowers the block by
  \<^verbatim>\<open>initialHeight / EXPLOSIVE_BLOCK_USES\<close> (the top edge moves down by as much),
  appends 50 particles at the middle of the old top edge, and calls \<^verbatim>\<open>flip()\<close> on
  every enemy of the roster. That flips the unflipped Basic, Fast and Jumping enemies
  and a ToughEnemy on its last hit; an IceBomberEnemy and a ToughEnemy with hits to
  spare are not flipped by it (\<open>flips\<close>). Otherwise the call changes nothing.
\<close>

theorem hit_effect:
  "(usesLeft (explosiveBlock w) > 0 \<and> cooldown (explosiveBlock w) \<le> 0 \<longrightarrow>
      (let b = explosiveBlock w; b' = explosiveBlock (hit w) in
         usesLeft b' = usesLeft b - 1 \<and> cooldown b' = 500 \<and>
         ExplosiveBlock.height b' = ExplosiveBlock.height b - initialHeight b / 3 \<and>
         ExplosiveBlock.y b' = ExplosiveBlock.y b + initialHeight b / 3 \<and>
         ExplosiveBlock.x b' = ExplosiveBlock.x b \<and> ExplosiveBlock.width b' = ExplosiveBlock.width b \<and>
         initialHeight b' = initialHeight b \<and>
         (\<exists>ps. particles (hit w) = particles w @ ps \<and> length ps = 50 \<and>
            (\<forall>p \<in> set ps. Particle.x p = ExplosiveBlock.x b + ExplosiveBlock.width b / 2 \<and>
                           Particle.y p = ExplosiveBlock.y b \<and> Particle.sprite p = COLLISION)) \<and>
         enemies (hit w) = map flip (enemies w) \<and>
         (\<forall>e \<in> set (enemies w). \<not> isFlipped e \<longrightarrow> isFlipped (flip e) = flips e))) \<and>
   (\<not> (usesLeft (explosiveBlock w) > 0 \<and> cooldown (explosiveBlock w) \<le> 0) \<longrightarrow> hit w = w)"
proof (intro conjI impI)
  assume g: "usesLeft (explosiveBlock w) > 0 \<and> cooldown (explosiveBlock w) \<le> 0"
  let ?b = "explosiveBlock w"
  let ?w1 = "w\<lparr>explosiveBlock := ?b\<lparr>usesLeft := usesLeft ?b - 1, cooldown := 500\<rparr>,
               enemies := map flip (enemies w)\<rparr>"
  let ?w2 = "spawnParticles 50 (ExplosiveBlock.x ?b + ExplosiveBlock.width ?b / 2)
               (ExplosiveBlock.y ?b) COLLISION ?w1"
  have eq: "hit w = ?w2\<lparr>explosiveBlock := (explosiveBlock ?w2)
      \<lparr>ExplosiveBlock.height :=
         ExplosiveBlock.height (explosiveBlock ?w2) - initialHeight (explosiveBlock ?w2) / 3,
       ExplosiveBlock.y :=
         ExplosiveBlock.y (explosiveBlock ?w2) + initialHeight (explosiveBlock ?w2) / 3\<rparr>\<rparr>"
    using g by (simp add: hit_def Let_def)
  obtain ps where ps: "particles ?w2 = particles ?w1 @ ps" "length ps = 50"
     "\<forall>p \<in> set ps. Particle.x p = ExplosiveBlock.x ?b + ExplosiveBlock.width ?b / 2 \<and>
                    Particle.y p = ExplosiveBlock.y ?b \<and> Particle.sprite p = COLLISION"
    using spawnParticles_particles by blast
  show "let b = explosiveBlock w; b' = explosiveBlock (hit w) in
         usesLeft b' = usesLeft b - 1 \<and> cooldown b' = 500 \<and>
         ExplosiveBlock.height b' = ExplosiveBlock.height b - initialHeight b / 3 \<and>
         ExplosiveBlock.y b' = ExplosiveBlock.y b + initialHeight b / 3 \<and>
         ExplosiveBlock.x b' = ExplosiveBlock.x b \<and> ExplosiveBlock.width b' = ExplosiveBlock.width b \<and>
         initialHeight b' = initialHeight b \<and>
         (\<exists>ps. particles (hit w) = particles w @ ps \<and> length ps = 50 \<and>
            (\<forall>p \<in> set ps. Particle.x p = ExplosiveBlock.x b + ExplosiveBlock.width b / 2 \<and>
                           Particle.y p = ExplosiveBlock.y b \<and> Particle.sprite p = COLLISION)) \<and>
         enemies (hit w) = map flip (enemies w) \<and>
         (\<forall>e \<in> set (enemies w). \<not> isFlipped e \<longrightarrow> isFlipped (flip e) = flips e)"
    unfolding Let_def
  proof (intro conjI)
    show "\<exists>ps. particles (hit w) = particles w @ ps \<and> length ps = 50 \<and>
            (\<forall>p \<in> set ps. Particle.x p = ExplosiveBlock.x ?b + ExplosiveBlock.width ?b / 2 \<and>
                           Particle.y p = ExplosiveBlock.y ?b \<and> Particle.sprite p = COLLISION)"
      using ps by (intro exI [of _ ps]) (simp add: eq)
    show "\<forall>e \<in> set (enemies w). \<not> isFlipped e \<longrightarrow> isFlipped (flip e) = flips e"
      by (simp add: isFlipped_flip)
  qed (simp_all add: eq)
next
  assume "\<not> (usesLeft (explosiveBlock w) > 0 \<and> cooldown (explosiveBlock w) \<le> 0)"
  then show "hit w = w" by (rule hit_blocked)
qed

theorem hit_effect_witness:
  "0 < usesLeft (explosiveBlock raidGame) \<and> cooldown (explosiveBlock raidGame) \<le> 0 \<and>
   usesLeft (explosiveBlock (hit raidGame)) = 2 \<and> cooldown (explosiveBlock (hit raidGame)) = 500 \<and>
   ExplosiveBlock.height (explosiveBlock (hit raidGame)) = 100 / 3 \<and>
   ExplosiveBlock.y (explosiveBlock (hit raidGame)) = 540 + 50 / 3 \<and>
   length (particles (hit raidGame)) = length (particles raidGame) + 50 \<and>
   map kind (enemies (hit raidGame)) = [IceBomberEnemy 100 (Some 3), ToughEnemy 1, BasicEnemy]"
proof -
  have g: "0 < usesLeft (explosiveBlock raidGame) \<and> cooldown (explosiveBlock raidGame) \<le> 0"
    by (simp add: raidGame_block ExplosiveBlock_new_def)
  from hit_effect [of raidGame] g
  have h: "let b = explosiveBlock raidGame; b' = explosiveBlock (hit raidGame) in
         usesLeft b' = usesLeft b - 1 \<and> cooldown b' = 500 \<and>
         ExplosiveBlock.height b' = ExplosiveBlock.height b - initialHeight b / 3 \<and>
         ExplosiveBlock.y b' = ExplosiveBlock.y b + initialHeight b / 3 \<and>
         ExplosiveBlock.x b' = ExplosiveBlock.x b \<and> ExplosiveBlock.width b' = ExplosiveBlock.width b \<and>
         initialHeight b' = initialHeight b \<and>
         (\<exists>ps. particles (hit raidGame) = particles raidGame @ ps \<and> length ps = 50 \<and>
            (\<forall>p \<in> set ps. Particle.x p = ExplosiveBlock.x b + ExplosiveBlock.width b / 2 \<and>
                           Particle.y p = ExplosiveBlock.y b \<and> Particle.sprite p = COLLISION)) \<and>
         enemies (hit raidGame) = map flip (enemies raidGame) \<and>
         (\<forall>e \<in> set (enemies raidGame). \<not> isFlipped e \<longrightarrow> isFlipped (flip e) = flips e)"
    by blast
  then obtain ps where "particles (hit raidGame) = particles raidGame @ ps" "length ps = 50"
    unfolding Let_def by blast
  then have "length (particles (hit raidGame)) = length (particles raidGame) + 50" by simp
  moreover have "map kind (enemies (hit raidGame)) =
      [IceBomberEnemy 100 (Some 3), ToughEnemy 1, BasicEnemy]"
    using h by (simp add: Let_def raidGame_enemies flip_def Enemy_flip_def
        IceBomberEnemy_flip_def ToughEnemy_flip_def)
  ultimately show ?thesis
    using g h by (simp add: Let_def raidGame_block ExplosiveBlock_new_def)
qed

text \<open>
  The claim as stated fails: a hit on the fresh block leaves the ice bomber and the
  tough enemy of \<open>raidGame\<close> unflipped; only the basic enemy is flipped.
\<close>

theorem hit_flips_all_counterexample:
  "0 < usesLeft (explosiveBlock raidGame) \<and> cooldown (explosiveBlock raidGame) \<le> 0 \<and>
   map isFlipped (enemies raidGame) = [False, False, False] \<and>
   map isFlipped (enemies (hit raidGame)) = [False, False, True]"
  by (simp add: hit_def Let_def raidGame_block ExplosiveBlock_new_def raidGame_enemies
      flip_def Enemy_flip_def IceBomberEnemy_flip_def ToughEnemy_flip_def)

text \<open>
  C6. After \<open>n\<close> hits that passed the guard, on a block that started fresh, \<open>n\<close> is at
  most \<^verbatim>\<open>EXPLOSIVE_BLOCK_USES\<close>, the block has \<^verbatim>\<open>EXPLOSIVE_BLOCK_USES - n\<close> uses left,
  and \<^verbatim>\<open>reset()\<close> gives \<^verbatim>\<open>height\<close>, \<^verbatim>\<open>y\<close> and \<^verbatim>\<open>usesLeft\<close> the values the constructor
  gave them. The witness is the block after all three hits.
\<close>

theorem reset_round_trip:
  "afterHits n w \<Longrightarrow>
     n \<le> 3 \<and> usesLeft (explosiveBlock w) = EXPLOSIVE_BLOCK_USES - int n \<and>
     ExplosiveBlock.height (reset (explosiveBlock w)) = ExplosiveBlock.height ExplosiveBlock_new \<and>
     ExplosiveBlock.y (reset (explosiveBlock w)) = ExplosiveBlock.y ExplosiveBlock_new \<and>
     usesLeft (reset (explosiveBlock w)) = usesLeft ExplosiveBlock_new"
  using afterHits_inv [of n w] by (simp add: reset_def ExplosiveBlock_new_def)

theorem reset_round_trip_witness:
  "afterHits 3 threeHits \<and> usesLeft (explosiveBlock threeHits) = 0 \<and>
   ExplosiveBlock.height (reset (explosiveBlock threeHits)) = 50 \<and>
   ExplosiveBlock.y (reset (explosiveBlock threeHits)) = 540 \<and>
   usesLeft (reset (explosiveBlock threeHits)) = 3"
  using reset_round_trip [OF afterHits_threeHits] afterHits_threeHits
  by (simp add: ExplosiveBlock_new_def)

text \<open>
  C8, as amended. A platform made mobile with a speed other than 0 and a range above 0
  starts inside \<open>[startX, startX + range]\<close>. After every number of ticks \<open>startX\<close> and
  \<open>range\<close> are what they were, the speed has kept its absolute value, and the position
  is less than one step outside the interval: \<open>startX - |speed| < x < startX + range + |speed|\<close>.
  Each tick moves the platform by \<open>vx\<close> and then negates \<open>vx\<close> when the new position
  is at or beyond a bound; the position is not clamped.
\<close>

theorem patrol_bounds:
  assumes "speed \<noteq> 0" and "0 < rng"
  shows "let p0 = makeMobile speed rng (Platform_new px py w h fl);
             p = (Platform_update ^^ n) p0
         in startX p0 \<le> Platform.x p0 \<and> Platform.x p0 \<le> startX p0 + rng \<and>
            startX p = startX p0 \<and> range' p = rng \<and> \<bar>Platform.vx p\<bar> = \<bar>speed\<bar> \<and>
            startX p - \<bar>speed\<bar> < Platform.x p \<and> Platform.x p < startX p + rng + \<bar>speed\<bar> \<and>
            Platform.x (Platform_update p) = Platform.x p + Platform.vx p \<and>
            Platform.vx (Platform_update p) =
              (if Platform.x p + Platform.vx p \<le> startX p \<or>
                  Platform.x p + Platform.vx p \<ge> startX p + rng
               then - Platform.vx p else Platform.vx p)"
proof -
  let ?start = "makeMobile speed rng (Platform_new px py w h fl)"
  let ?p = "(Platform_update ^^ n) ?start"
  have s: "0 < \<bar>speed\<bar>" using assms by simp
  have r0: "range' ?start = rng" by (simp add: makeMobile_def Let_def)
  have "patrolling \<bar>speed\<bar> ?p \<and> startX ?p = startX ?start \<and> range' ?p = range' ?start"
    by (rule patrolling_funpow [OF patrolling_makeMobile [OF assms] s])
  then have i: "patrolling \<bar>speed\<bar> ?p" "startX ?p = startX ?start" "range' ?p = rng"
    by (simp_all only: r0)
  have nz: "Platform.vx ?p \<noteq> 0" using i(1) s by (auto simp add: patrolling_def)
  have x0: "startX ?start \<le> Platform.x ?start \<and> Platform.x ?start \<le> startX ?start + rng"
    using assms by (simp add: makeMobile_def Platform_new_def Let_def)
  have step: "Platform.x (Platform_update ?p) = Platform.x ?p + Platform.vx ?p \<and>
     Platform.vx (Platform_update ?p) =
       (if Platform.x ?p + Platform.vx ?p \<le> startX ?p \<or>
           Platform.x ?p + Platform.vx ?p \<ge> startX ?p + rng
        then - Platform.vx ?p else Platform.vx ?p)"
    using nz i(3) by (simp add: Platform_update_def Let_def)
  show ?thesis
    unfolding Let_def using i x0 step by (simp add: patrolling_def)
qed

theorem patrol_bounds_witness:
  "(1.2::real) \<noteq> 0 \<and> (0::real) < 80 \<and>
   levelLayouts ! 3 ! 0 = makeMobile 1.2 80 (Platform_new 0 580 150 20 False) \<and>
   startX ((Platform_update ^^ 67) (levelLayouts ! 3 ! 0)) = 0 \<and>
   range' ((Platform_update ^^ 67) (levelLayouts ! 3 ! 0)) = 80 \<and>
   - 1.2 < Platform.x ((Platform_update ^^ 67) (levelLayouts ! 3 ! 0)) \<and>
   Platform.x ((Platform_update ^^ 67) (levelLayouts ! 3 ! 0)) < 81.2"
proof -
  have l: "levelLayouts ! 3 ! 0 = makeMobile 1.2 80 (Platform_new 0 580 150 20 False)"
    by (simp add: levelLayouts_def)
  have "startX (makeMobile 1.2 80 (Platform_new 0 580 150 20 False)) = 0"
    by (simp add: makeMobile_def Platform_new_def Let_def)
  then show ?thesis
    using patrol_bounds [of "1.2" 80 0 580 150 20 False 67] l
    by (simp add: Let_def)
qed

text \<open>
  The claim as stated fails on the first platform of the fourth layout
  (\<^verbatim>\<open>new Platform(0, 580, 150).makeMobile(1.2, 80)\<close>): its 67th tick takes it to
  \<open>x = 80.4\<close>, beyond \<open>startX + range = 80\<close>.
\<close>

theorem patrol_interval_counterexample:
  "Platform.vx (levelLayouts ! 3 ! 0) \<noteq> 0 \<and>
   startX ((Platform_update ^^ 67) (levelLayouts ! 3 ! 0)) = 0 \<and>
   range' ((Platform_update ^^ 67) (levelLayouts ! 3 ! 0)) = 80 \<and>
   Platform.x ((Platform_update ^^ 67) (levelLayouts ! 3 ! 0)) = 80.4 \<and>
   \<not> (Platform.x ((Platform_update ^^ 67) (levelLayouts ! 3 ! 0))
        \<le> startX ((Platform_update ^^ 67) (levelLayouts ! 3 ! 0))
          + range' ((Platform_update ^^ 67) (levelLayouts ! 3 ! 0)))"
  by (simp add: eval_nat_numeral levelLayouts_def Platform_update_def makeMobile_def
      Platform_new_def Let_def)

text \<open>
  C5, as amended. Once \<^verbatim>\<open>usesLeft\<close> is 0 the block no longer acts as a hazard trigger:
  \<^verbatim>\<open>hit()\<close> changes nothing and \<^verbatim>\<open>draw()\<close> draws nothing. Nor does the collision pass
  land a player on it: the landing test asks for \<^verbatim>\<open>usesLeft > 0\<close>.
\<close>

theorem spent_block:
  "usesLeft (explosiveBlock w) \<le> 0 \<Longrightarrow>
     hit w = w \<and> ExplosiveBlock_draw (explosiveBlock w) = [] \<and> landOnBlock i w = w"
  by (simp add: hit_def ExplosiveBlock_draw_def landOnBlock_def Let_def)

theorem spent_block_witness:
  "usesLeft (explosiveBlock fallingGame) \<le> 0 \<and> hit fallingGame = fallingGame \<and>
   ExplosiveBlock_draw (explosiveBlock fallingGame) = [] \<and> landOnBlock 0 fallingGame = fallingGame"
  using spent_block [of fallingGame 0] by (simp add: fallingGame_def spentBlock_def)

text \<open>
  The claim as stated fails: in \<open>fallingGame\<close> the player falls with its feet inside
  the landing band of the spent block, and the collision pass leaves it falling; it is
  not on the ground and keeps its position and speed.
\<close>

theorem spent_block_landing_counterexample:
  "usesLeft (explosiveBlock fallingGame) = 0 \<and>
   Player.vy (players fallingGame ! 0) \<ge> 0 \<and>
   Player.x (players fallingGame ! 0)
      < ExplosiveBlock.x (explosiveBlock fallingGame) + ExplosiveBlock.width (explosiveBlock fallingGame) \<and>
   Player.x (players fallingGame ! 0) + Player.width (players fallingGame ! 0)
      > ExplosiveBlock.x (explosiveBlock fallingGame) \<and>
   Player.y (players fallingGame ! 0) + Player.height (players fallingGame ! 0)
      \<ge> ExplosiveBlock.y (explosiveBlock fallingGame) \<and>
   Player.y (players fallingGame ! 0) + Player.height (players fallingGame ! 0)
      \<le> ExplosiveBlock.y (explosiveBlock fallingGame) + 10 + Player.vy (players fallingGame ! 0) \<and>
   handleCollisions fallingGame = fallingGame \<and>
   \<not> Player.onGround (players (handleCollisions fallingGame) ! 0) \<and>
   Player.y (players (handleCollisions fallingGame) ! 0) = 555 \<and>
   Player.vy (players (handleCollisions fallingGame) ! 0) = 3"
  unfolding falling_pass by (simp add: fallingGame_def spentBlock_def player1_eq)

text \<open>
  C4. Along every sequence of simulation operations on a match (collision passes, awards
  of points, deaths, level set-ups, whole ticks) the roster keeps its length and no
  player's score ever goes down.
\<close>

theorem score_never_decreases:
  "simStep\<^sup>*\<^sup>* w w' \<Longrightarrow>
     length (players w') = length (players w) \<and>
     (\<forall>i < length (players w). score (players w ! i) \<le> score (players w' ! i))"
proof (induction rule: rtranclp_induct)
  case base
  then show ?case by simp
next
  case (step y z)
  have "length (players z) = length (players y) \<and>
     (\<forall>i < length (players y). score (players y ! i) \<le> score (players z ! i))"
    using step.hyps(2)
  proof cases
    case collisions
    then show ?thesis using passKeeps_handleCollisions [of y] by (simp add: passKeeps_def)
  next
    case (award i points)
    then show ?thesis using passKeeps_addScore [of points y i] by (simp add: passKeeps_def)
  next
    case (death i)
    then show ?thesis using passKeeps_die [of y i] by (simp add: passKeeps_def)
  next
    case levelSetup
    then show ?thesis by simp
  next
    case tick
    then show ?thesis using players_update [of y] by simp
  qed
  with step.IH show ?case by (auto intro: order_trans)
qed

theorem score_never_decreases_witness:
  "simStep\<^sup>*\<^sup>* duelGame (addScore 0 50 (handleCollisions duelGame)) \<and>
   length (players (addScore 0 50 (handleCollisions duelGame))) = length (players duelGame) \<and>
   score (players duelGame ! 0) \<le> score (players (addScore 0 50 (handleCollisions duelGame)) ! 0) \<and>
   score (players duelGame ! 0) = 0 \<and>
   score (players (addScore 0 50 (handleCollisions duelGame)) ! 0) = 250"
proof -
  have 1: "simStep duelGame (handleCollisions duelGame)" by (rule simStep.collisions)
  have "0 < length (players (handleCollisions duelGame))" using duel_pass by simp
  then have 2: "simStep (handleCollisions duelGame) (addScore 0 50 (handleCollisions duelGame))"
    by (rule simStep.award) simp
  have s: "simStep\<^sup>*\<^sup>* duelGame (addScore 0 50 (handleCollisions duelGame))"
    using 1 2 by (meson r_into_rtranclp rtranclp.rtrancl_into_rtrancl)
  have l: "length (players duelGame) = 1" "score (players duelGame ! 0) = 0"
    by (simp_all add: duelGame_def levelOne_fields player1_eq)
  have v: "score (players (addScore 0 50 (handleCollisions duelGame)) ! 0) = 250"
    using duel_pass by (simp add: addScore_players player1_eq)
  from score_never_decreases [OF s] l
  have "length (players (addScore 0 50 (handleCollisions duelGame))) = length (players duelGame) \<and>
        score (players duelGame ! 0) \<le> score (players (addScore 0 50 (handleCollisions duelGame)) ! 0)"
    by simp
  then show ?thesis using s l v by simp
qed

text \<open>
  C1. The level check of the tick does what the claim says (lemma \<open>level_check\<close>), and
  on the states that the simulation reaches on its own a tick that ends with every
  player dead ends in \<^verbatim>\<open>gameOver\<close> (lemma \<open>game_over_in_simulation\<close>). The
  \<^verbatim>\<open>keydown\<close> listener breaks this: every Enter \<^verbatim>\<open>keydown\<close> in the state
  \<^verbatim>\<open>paused\<close> sets a timer whose callback writes \<^verbatim>\<open>gameState = 'playing'\<close> whatever
  the state has become. In \<open>lastStand\<close>, with two timers set, the first resumes the
  game, the player loses its last life on the next tick and the state is \<^verbatim>\<open>gameOver\<close>,
  and the second timer turns it back into \<^verbatim>\<open>playing\<close>. The tick after that runs in the
  state \<^verbatim>\<open>playing\<close> with every player dead, and the state it leaves is \<^verbatim>\<open>playing\<close>,
  not \<^verbatim>\<open>gameOver\<close>.
\<close>

theorem pause_timer_revives_finished_game:
  "gameState lastStand = playing \<and> someoneAlive lastStand \<and>
   \<not> touches (players lastStand ! 0) (enemies lastStand ! 0) \<and>
   gameState (game pausedTwice) = paused \<and> timers pausedTwice = 2 \<and>
   gameState (game resumed) = playing \<and> someoneAlive (game resumed) \<and>
   gameState (game finished) = gameOver \<and> \<not> someoneAlive (game finished) \<and>
   gameState (game revived) = playing \<and> \<not> someoneAlive (game revived) \<and>
   \<not> someoneAlive (handleCollisions (moveEntities (game revived))) \<and>
   gameState (update (game revived)) = playing \<and>
   gameState (update (game revived)) \<noteq> gameOver"
proof -
  have a: "gameState lastStand = playing \<and> someoneAlive lastStand \<and>
      \<not> touches (players lastStand ! 0) (enemies lastStand ! 0)"
    by (simp add: lastStand_def levelOne_eq player1_eq someoneAlive_def touches_def
        FastEnemy_new_def Enemy_new_def Math_random_def)
  have b: "gameState (game pausedTwice) = paused \<and> timers pausedTwice = 2"
    by (simp add: pausedTwice_eq)
  have c: "gameState (game resumed) = playing \<and> someoneAlive (game resumed)"
    by (simp add: resumed_eq lastStand_fields someoneAlive_def player1_eq)
  have d: "gameState (game finished) = gameOver \<and> \<not> someoneAlive (game finished)"
    using finished_fields by (simp add: someoneAlive_map)
  have r: "game revived = (game finished)\<lparr>gameState := playing\<rparr>"
    by (simp add: revived_def timeout_def debounce_def finished_fields heldKeys_def)
  have e: "gameState (game revived) = playing \<and> \<not> someoneAlive (game revived)"
    using d by (simp add: r someoneAlive_def)
  have m: "sameFlow (game revived) (handleCollisions (moveEntities (game revived)))"
    using e dead_moveEntities dead_handleCollisions
    by (metis sameFlow_def sameFlow_trans someoneAlive_def)
  then have f: "\<not> someoneAlive (handleCollisions (moveEntities (game revived)))"
    using e by (simp add: sameFlow_def someoneAlive_def)
  have g: "gameState (update (game revived)) = playing"
    using dead_tick e by blast
  show ?thesis using a b c d e f g by simp
qed

text \<open>
  C9. The callback of the enemy loop does what the claim says (lemma
  \<open>playerVsEnemy_flipped\<close>), but the loop does not reach every enemy: the
  \<^verbatim>\<open>splice\<close> moves the next enemy into the slot just visited, and \<^verbatim>\<open>forEach\<close> goes
  on with the slot after it. In \<open>duelGame\<close> the live player overlaps two flipped
  enemies; the pass removes the first, awards 200 points once and spawns 20 particles,
  and leaves the second, still flipped and still overlapped, in the roster.
\<close>

theorem second_flipped_enemy_skipped:
  "\<not> isDead (players duelGame ! 0) \<and>
   map isFlipped (enemies duelGame) = [True, True] \<and>
   touches (players duelGame ! 0) (enemies duelGame ! 0) \<and>
   touches (players duelGame ! 0) (enemies duelGame ! 1) \<and>
   enemies (handleCollisions duelGame) = [enemies duelGame ! 1] \<and>
   score (players (handleCollisions duelGame) ! 0) = score (players duelGame ! 0) + 200 \<and>
   length (particles (handleCollisions duelGame)) = length (particles duelGame) + 20 \<and>
   touches (players (handleCollisions duelGame) ! 0) (enemies (handleCollisions duelGame) ! 0) \<and>
   isFlipped (enemies (handleCollisions duelGame) ! 0)"
  using duel_pass
  by (simp add: duelGame_def levelOne_fields player1_eq flippedGhost_eq touches_def)

end
